theory Spec2Isabelle
  imports Complex_Main "HOL-Library.Sublist" "HOL-Library.Multiset"
begin

section \<open>Data model (types.ts)\<close>

text \<open>
  The union types of \<^verbatim>\<open>PotholeReport\<close> become datatypes. A \<^verbatim>\<open>Date\<close> is its number of
  milliseconds since the epoch (\<^verbatim>\<open>getTime()\<close>), an \<^typ>\<open>int\<close>; a valid \<^verbatim>\<open>Date\<close> has at most
  8,640,000,000,000,000 of them on either side. A JavaScript \<^verbatim>\<open>number\<close> is the
  \<^typ>\<open>real\<close> it stands for; where the code computes with numbers, the results are
  rounded as double precision does (see the section on numbers). The priority of a report
  and all clock readings are integers. An optional field
  (\<^verbatim>\<open>imageUrl?\<close>) is an \<^typ>\<open>'a option\<close>, \<^const>\<open>None\<close> for an absent field.

  Field names are the source's, but \<^verbatim>\<open>id\<close> is \<open>id_r\<close> and \<^verbatim>\<open>length\<close> is \<open>length_d\<close>, and
  the fields of the other object types have a prefix: \<open>d_\<close> for the draft, \<open>u_\<close> for the
  partial report, \<open>ra_\<close> for a report's analysis, \<open>f_\<close> for the form data, and \<open>a_\<close> for
  the fields of the service's analysis that a report has too.
\<close>

datatype severity = Low | Medium | High | Critical

datatype status = Pending | InProgress | Resolved | Rejected

record lat_lng =
  lat :: real
  lng :: real

record dimensions =
  width :: real
  depth :: real
  length_d :: real

text \<open>The \<^verbatim>\<open>aiAnalysis\<close> object of a report: confidence, dimensions, risk level label.\<close>

record report_analysis =
  ra_confidence :: real
  ra_dimensions :: dimensions
  ra_riskLevel :: string

record PotholeReport =
  id_r :: string
  location :: string
  coordinates :: lat_lng
  severity :: severity
  status :: status
  reportedAt :: int
  reportedBy :: string
  description :: string
  imageUrl :: "string option"
  aiAnalysis :: "report_analysis option"
  priority :: int
  assignedTo :: "string option"
  resolvedAt :: "int option"

text \<open>
  \<^verbatim>\<open>Omit<PotholeReport, 'id' | 'reportedAt'>\<close>: the draft that \<^verbatim>\<open>addReport\<close> receives.
\<close>

record report_draft =
  d_location :: string
  d_coordinates :: lat_lng
  d_severity :: severity
  d_status :: status
  d_reportedBy :: string
  d_description :: string
  d_imageUrl :: "string option"
  d_aiAnalysis :: "report_analysis option"
  d_priority :: int
  d_assignedTo :: "string option"
  d_resolvedAt :: "int option"

text \<open>
  \<^verbatim>\<open>Partial<PotholeReport>\<close>: every key may be absent (\<^const>\<open>None\<close>). For an optional
  field of the report the key may also be present with the value \<^verbatim>\<open>undefined\<close>, which
  is \<open>Some None\<close>.
\<close>

record report_updates =
  u_id :: "string option"
  u_location :: "string option"
  u_coordinates :: "lat_lng option"
  u_severity :: "severity option"
  u_status :: "status option"
  u_reportedAt :: "int option"
  u_reportedBy :: "string option"
  u_description :: "string option"
  u_imageUrl :: "string option option"
  u_aiAnalysis :: "report_analysis option option"
  u_priority :: "int option"
  u_assignedTo :: "string option option"
  u_resolvedAt :: "int option option"

text \<open>The object literal \<^verbatim>\<open>{}\<close>: no key present.\<close>

definition no_updates :: report_updates where
  "no_updates = \<lparr>u_id = None, u_location = None, u_coordinates = None, u_severity = None,
     u_status = None, u_reportedAt = None, u_reportedBy = None, u_description = None,
     u_imageUrl = None, u_aiAnalysis = None, u_priority = None, u_assignedTo = None,
     u_resolvedAt = None\<rparr>"

section \<open>Number.prototype.toString on integers\<close>

text \<open>
  \<^verbatim>\<open>Date.now().toString()\<close> prints an integer in decimal, with a leading minus sign for
  a negative one.
\<close>

definition digit_char :: "nat \<Rightarrow> char" where
  "digit_char n = ''0123456789'' ! n"

fun nat_to_string :: "nat \<Rightarrow> string" where
  "nat_to_string n =
     (if n < 10 then [digit_char n] else nat_to_string (n div 10) @ [digit_char (n mod 10)])"

definition number_to_string :: "int \<Rightarrow> string" where
  "number_to_string i =
     (if i < 0 then CHR ''-'' # nat_to_string (nat (- i)) else nat_to_string (nat i))"

section \<open>Numbers (IEEE 754 double precision)\<close>

text \<open>
  A finite \<^verbatim>\<open>number\<close> is a real of the form \<open>m * 2 ^ e\<close> with \<open>\<bar>m\<bar> < 2 ^ 53\<close> and
  \<open>- 1074 \<le> e\<close>. Every arithmetic operation of the code and every decimal literal gives
  the exact result rounded to the nearest such number, a tie going to the even \<open>m\<close>:
  \<open>a + b\<close> of the code is \<open>fl (a + b)\<close>, the literal \<^verbatim>\<open>0.2\<close> is \<open>fl (2 / 10)\<close>. The unit in
  the last place of \<open>x\<close> is \<open>2 ^ (k - 52)\<close> for \<open>2 ^ k \<le> \<bar>x\<bar> < 2 ^ (k + 1)\<close>, and
  \<open>2 ^ - 1074\<close> for the subnormal numbers below \<open>2 ^ - 1022\<close>. The binary logarithm is
  found from the bit length of an integer. Infinities, \<^verbatim>\<open>NaN\<close> and the sign of zero are
  not modelled: overflow starts near \<open>2 ^ 1024\<close>, and the numbers computed here come from
  samples below 1, small constants and differences of \<^verbatim>\<open>Date\<close>s.
\<close>

function bit_length :: "int \<Rightarrow> int" where
  "bit_length n = (if n \<le> 0 then 0 else 1 + bit_length (n div 2))"
  by pat_completeness auto
termination
  by (relation "measure nat") auto

text \<open>For \<open>0 < x\<close>: the \<open>k\<close> with \<open>2 ^ k \<le> x < 2 ^ (k + 1)\<close>.\<close>

definition ilog2 :: "real \<Rightarrow> int" where
  "ilog2 x =
     (if 1 \<le> x then bit_length \<lfloor>x\<rfloor> - 1
      else - bit_length (\<lceil>1 / x\<rceil> - 1))"

definition round_half_even :: "real \<Rightarrow> int" where
  "round_half_even x =
     (let n = \<lfloor>x\<rfloor>
      in if x - of_int n < 1 / 2 then n
         else if 1 / 2 < x - of_int n then n + 1
         else if even n then n else n + 1)"

definition ulp_exponent :: "real \<Rightarrow> int" where
  "ulp_exponent x = max (ilog2 \<bar>x\<bar> - 52) (- 1074)"

definition fl :: "real \<Rightarrow> real" where
  "fl x =
     (if x = 0 then 0
      else of_int (round_half_even (x / 2 powi ulp_exponent x)) * 2 powi ulp_exponent x)"

section \<open>The report store (hooks/useReports.ts)\<close>

text \<open>
  The seed data. The dates of the source are read as UTC; a decimal literal is the double
  precision number nearest to it (\<open>fl\<close>, see the section on numbers).
\<close>

definition mockReports :: "PotholeReport list" where
  "mockReports = [
     \<lparr>id_r = ''1'', location = ''Main Street & 5th Avenue'',
      coordinates = \<lparr>lat = fl (407128 / 10000), lng = - fl (740060 / 10000)\<rparr>,
      severity = High, status = Pending, reportedAt = 1705314600000,
      reportedBy = ''John Doe'', description = ''Large pothole causing vehicle damage'',
      imageUrl = Some ''https://images.pexels.com/photos/1051838/pexels-photo-1051838.jpeg?auto=compress&cs=tinysrgb&w=400'',
      aiAnalysis = Some \<lparr>ra_confidence = fl (92 / 100),
        ra_dimensions = \<lparr>width = 45, depth = 8, length_d = 60\<rparr>, ra_riskLevel = ''High Risk''\<rparr>,
      priority = 8, assignedTo = None, resolvedAt = None\<rparr>,
     \<lparr>id_r = ''2'', location = ''Oak Road near School'',
      coordinates = \<lparr>lat = fl (407589 / 10000), lng = - fl (739851 / 10000)\<rparr>,
      severity = Critical, status = InProgress, reportedAt = 1705242000000,
      reportedBy = ''Sarah Wilson'', description = ''Deep pothole in school zone - safety hazard'',
      imageUrl = Some ''https://images.pexels.com/photos/2448749/pexels-photo-2448749.jpeg?auto=compress&cs=tinysrgb&w=400'',
      aiAnalysis = Some \<lparr>ra_confidence = fl (96 / 100),
        ra_dimensions = \<lparr>width = 55, depth = 12, length_d = 70\<rparr>, ra_riskLevel = ''Critical Risk''\<rparr>,
      priority = 10, assignedTo = Some ''Mike Johnson'', resolvedAt = None\<rparr>,
     \<lparr>id_r = ''3'', location = ''Elm Street Bridge'',
      coordinates = \<lparr>lat = fl (407505 / 10000), lng = - fl (739934 / 10000)\<rparr>,
      severity = Medium, status = Resolved, reportedAt = 1705050900000,
      reportedBy = ''David Chen'', description = ''Medium-sized pothole affecting traffic flow'',
      imageUrl = Some ''https://images.pexels.com/photos/1051838/pexels-photo-1051838.jpeg?auto=compress&cs=tinysrgb&w=400'',
      aiAnalysis = Some \<lparr>ra_confidence = fl (88 / 100),
        ra_dimensions = \<lparr>width = 30, depth = 5, length_d = 40\<rparr>, ra_riskLevel = ''Medium Risk''\<rparr>,
      priority = 5, assignedTo = Some ''Lisa Brown'', resolvedAt = Some 1705164300000\<rparr>]"

text \<open>
  \<^verbatim>\<open>addReport\<close> reads the clock twice: \<^verbatim>\<open>Date.now()\<close> for the identifier and
  \<^verbatim>\<open>new Date()\<close> for the creation timestamp. The two readings are the arguments
  \<open>now_id\<close> and \<open>now_at\<close>. The new report is the draft's fields with the two new ones.
\<close>

definition newReport :: "report_draft \<Rightarrow> int \<Rightarrow> int \<Rightarrow> PotholeReport" where
  "newReport report now_id now_at =
     \<lparr>id_r = number_to_string now_id, location = d_location report,
      coordinates = d_coordinates report, severity = d_severity report, status = d_status report,
      reportedAt = now_at, reportedBy = d_reportedBy report,
      description = d_description report, imageUrl = d_imageUrl report,
      aiAnalysis = d_aiAnalysis report, priority = d_priority report,
      assignedTo = d_assignedTo report, resolvedAt = d_resolvedAt report\<rparr>"

text \<open>The returned record and the store after \<^verbatim>\<open>setReports(prev => [newReport, ...prev])\<close>.\<close>

definition addReport ::
  "report_draft \<Rightarrow> int \<Rightarrow> int \<Rightarrow> PotholeReport list \<Rightarrow> PotholeReport \<times> PotholeReport list" where
  "addReport report now_id now_at prev =
     (newReport report now_id now_at, newReport report now_id now_at # prev)"

text \<open>The spread \<^verbatim>\<open>{ ...report, ...updates }\<close>: a key present in the updates wins.\<close>

definition merge :: "PotholeReport \<Rightarrow> report_updates \<Rightarrow> PotholeReport" where
  "merge report updates =
     \<lparr>id_r = (case u_id updates of None \<Rightarrow> id_r report | Some v \<Rightarrow> v),
      location = (case u_location updates of None \<Rightarrow> location report | Some v \<Rightarrow> v),
      coordinates = (case u_coordinates updates of None \<Rightarrow> coordinates report | Some v \<Rightarrow> v),
      severity = (case u_severity updates of None \<Rightarrow> severity report | Some v \<Rightarrow> v),
      status = (case u_status updates of None \<Rightarrow> status report | Some v \<Rightarrow> v),
      reportedAt = (case u_reportedAt updates of None \<Rightarrow> reportedAt report | Some v \<Rightarrow> v),
      reportedBy = (case u_reportedBy updates of None \<Rightarrow> reportedBy report | Some v \<Rightarrow> v),
      description = (case u_description updates of None \<Rightarrow> description report | Some v \<Rightarrow> v),
      imageUrl = (case u_imageUrl updates of None \<Rightarrow> imageUrl report | Some v \<Rightarrow> v),
      aiAnalysis = (case u_aiAnalysis updates of None \<Rightarrow> aiAnalysis report | Some v \<Rightarrow> v),
      priority = (case u_priority updates of None \<Rightarrow> priority report | Some v \<Rightarrow> v),
      assignedTo = (case u_assignedTo updates of None \<Rightarrow> assignedTo report | Some v \<Rightarrow> v),
      resolvedAt = (case u_resolvedAt updates of None \<Rightarrow> resolvedAt report | Some v \<Rightarrow> v)\<rparr>"

definition updateReport :: "string \<Rightarrow> report_updates \<Rightarrow> PotholeReport list \<Rightarrow> PotholeReport list" where
  "updateReport i updates prev =
     map (\<lambda>report. if id_r report = i then merge report updates else report) prev"

definition deleteReport :: "string \<Rightarrow> PotholeReport list \<Rightarrow> PotholeReport list" where
  "deleteReport i prev = filter (\<lambda>report. id_r report \<noteq> i) prev"

text \<open>
  Sequences of store operations. Each \<^verbatim>\<open>setReports\<close> updater runs on the state the
  previous one left, so a sequence of calls is a left fold over the store.
\<close>

datatype store_op =
  Add report_draft int int
  | Update string report_updates
  | Delete string

fun apply_op :: "store_op \<Rightarrow> PotholeReport list \<Rightarrow> PotholeReport list" where
  "apply_op (Add report now_id now_at) prev = snd (addReport report now_id now_at prev)"
| "apply_op (Update i updates) prev = updateReport i updates prev"
| "apply_op (Delete i) prev = deleteReport i prev"

definition run_ops :: "store_op list \<Rightarrow> PotholeReport list \<Rightarrow> PotholeReport list" where
  "run_ops ops s = foldl (\<lambda>prev op. apply_op op prev) s ops"

fun count_adds :: "store_op list \<Rightarrow> nat" where
  "count_adds [] = 0"
| "count_adds (Add report now_id now_at # ops) = Suc (count_adds ops)"
| "count_adds (_ # ops) = count_adds ops"

fun is_delete :: "store_op \<Rightarrow> bool" where
  "is_delete (Delete i) = True"
| "is_delete _ = False"

text \<open>An operation that carries neither an \<^verbatim>\<open>id\<close> nor a \<^verbatim>\<open>reportedAt\<close> key.\<close>

fun keeps_identity :: "store_op \<Rightarrow> bool" where
  "keeps_identity (Update i updates) = (u_id updates = None \<and> u_reportedAt updates = None)"
| "keeps_identity _ = True"

definition key_of :: "PotholeReport \<Rightarrow> string \<times> int" where
  "key_of report = (id_r report, reportedAt report)"

text \<open>A sequence of \<^verbatim>\<open>addReport\<close> calls, each with its draft and its two clock readings.\<close>

fun create_all :: "(report_draft \<times> int \<times> int) list \<Rightarrow> PotholeReport list \<Rightarrow> PotholeReport list" where
  "create_all [] prev = prev"
| "create_all ((report, now_id, now_at) # calls) prev =
     create_all calls (snd (addReport report now_id now_at prev))"

section \<open>Report card (components/ReportCard.tsx)\<close>

text \<open>
  \<^verbatim>\<open>handleStatusChange\<close> builds the partial report and hands it to the \<^verbatim>\<open>onUpdate\<close> prop
  with the card's report id. \<open>now\<close> is the reading of \<^verbatim>\<open>new Date()\<close>.
\<close>

definition status_updates :: "status \<Rightarrow> int \<Rightarrow> report_updates" where
  "status_updates newStatus now =
     (let updates = no_updates\<lparr>u_status := Some newStatus\<rparr>
      in if newStatus = Resolved then updates\<lparr>u_resolvedAt := Some (Some now)\<rparr> else updates)"

definition handleStatusChange ::
  "(string \<Rightarrow> report_updates \<Rightarrow> 'a) \<Rightarrow> PotholeReport \<Rightarrow> status \<Rightarrow> int \<Rightarrow> 'a" where
  "handleStatusChange onUpdate report newStatus now =
     onUpdate (id_r report) (status_updates newStatus now)"

section \<open>Authority panel (components/AuthorityPanel.tsx)\<close>

definition handleAssign :: "(string \<Rightarrow> report_updates \<Rightarrow> 'a) \<Rightarrow> string \<Rightarrow> string \<Rightarrow> 'a" where
  "handleAssign onUpdateReport reportId assignee =
     onUpdateReport reportId
       (no_updates\<lparr>u_assignedTo := Some (Some assignee), u_status := Some InProgress\<rparr>)"

definition handlePriorityChange :: "(string \<Rightarrow> report_updates \<Rightarrow> 'a) \<Rightarrow> string \<Rightarrow> int \<Rightarrow> 'a" where
  "handlePriorityChange onUpdateReport reportId p =
     onUpdateReport reportId (no_updates\<lparr>u_priority := Some p\<rparr>)"

section \<open>AI service (services/aiService.ts)\<close>

record image_dimensions =
  img_width :: real
  img_height :: real

record AIAnalysis =
  confidence :: real
  a_severity :: severity
  severity_confidence :: real
  a_dimensions :: dimensions
  riskLevel :: string
  risk_score :: real
  a_priority :: real
  area :: real
  volume :: real
  filename :: "string option"
  file_size :: "real option"
  a_image_dimensions :: "image_dimensions option"

text \<open>
  \<^verbatim>\<open>Math.random()\<close> is called nine times by \<^verbatim>\<open>getMockAnalysis\<close>; the nine samples are
  the fields of this record, in the order of the calls. Each sample is a \<^verbatim>\<open>number\<close>, that
  is a real that rounding leaves as it is, from 0 on and below 1.
\<close>

record mock_samples =
  s_severity :: real
  s_riskLevel :: real
  s_width :: real
  s_length :: real
  s_depth :: real
  s_confidence :: real
  s_severity_confidence :: real
  s_risk_score :: real
  s_priority :: real

definition unit_sample :: "real \<Rightarrow> bool" where
  "unit_sample x = (fl x = x \<and> 0 \<le> x \<and> x < 1)"

definition unit_samples :: "mock_samples \<Rightarrow> bool" where
  "unit_samples rnd =
     (unit_sample (s_severity rnd) \<and> unit_sample (s_riskLevel rnd) \<and>
      unit_sample (s_width rnd) \<and> unit_sample (s_length rnd) \<and> unit_sample (s_depth rnd) \<and>
      unit_sample (s_confidence rnd) \<and> unit_sample (s_severity_confidence rnd) \<and>
      unit_sample (s_risk_score rnd) \<and> unit_sample (s_priority rnd))"

text \<open>
  \<^verbatim>\<open>Math.floor\<close> and \<^verbatim>\<open>Math.round\<close> are exact on their argument: the largest integer not
  above it, and the nearest integer with a half going up.
\<close>

definition math_floor :: "real \<Rightarrow> int" where
  "math_floor x = \<lfloor>x\<rfloor>"

definition math_round :: "real \<Rightarrow> int" where
  "math_round x = \<lfloor>x + 1 / 2\<rfloor>"

definition severities :: "severity list" where
  "severities = [Low, Medium, High, Critical]"

definition riskLevels :: "string list" where
  "riskLevels = [''Low Risk'', ''Medium Risk'', ''High Risk'', ''Critical Risk'']"

definition getMockAnalysis :: "mock_samples \<Rightarrow> AIAnalysis" where
  "getMockAnalysis rnd =
     (let severity' =
            severities ! nat (math_floor (fl (s_severity rnd * real (length severities))));
          riskLevel' =
            riskLevels ! nat (math_floor (fl (s_riskLevel rnd * real (length riskLevels))));
          width' = real_of_int (math_round (fl (20 + fl (s_width rnd * 50))));
          length' = real_of_int (math_round (fl (25 + fl (s_length rnd * 60))));
          depth' = real_of_int (math_round (fl (3 + fl (s_depth rnd * 15))))
      in \<lparr>confidence = fl (fl (75 / 100) + fl (s_confidence rnd * fl (2 / 10))),
          a_severity = severity',
          severity_confidence =
            fl (fl (8 / 10) + fl (s_severity_confidence rnd * fl (15 / 100))),
          a_dimensions = \<lparr>width = width', depth = depth', length_d = length'\<rparr>,
          riskLevel = riskLevel',
          risk_score = s_risk_score rnd,
          a_priority = real_of_int (math_floor (fl (1 + fl (s_priority rnd * 10)))),
          area = fl (width' * length'),
          volume = fl (fl (width' * length') * depth'),
          filename = Some ''mock_analysis.jpg'',
          file_size = Some 245760,
          a_image_dimensions = Some \<lparr>img_width = 800, img_height = 600\<rparr>\<rparr>)"

text \<open>
  What \<^verbatim>\<open>apiClient.post\<close> can do: resolve with a response, or reject. A rejection by
  axios (\<^verbatim>\<open>axios.isAxiosError\<close> holds) carries an optional error code and, when the
  server answered, the HTTP status. The other thrown values are not axios errors: the
  runtime's \<^verbatim>\<open>TypeError\<close> for a property read on \<^verbatim>\<open>null\<close>, the \<^verbatim>\<open>Error\<close> the function
  itself throws, and any other value, with its \<^verbatim>\<open>code\<close> property if it has one. The body
  of a response is \<^verbatim>\<open>null\<close>/\<^verbatim>\<open>undefined\<close>, or a value of which the code reads three
  properties: \<^verbatim>\<open>success\<close>, for its truthiness (false when the property is missing),
  \<^verbatim>\<open>analysis\<close>, which can be missing (\<^const>\<open>None\<close> is \<^verbatim>\<open>undefined\<close>), and
  \<^verbatim>\<open>message\<close>, the empty string when missing.
\<close>

datatype js_error =
  AxiosError "string option" "nat option"
  | TypeError
  | Error string
  | Other "string option"

datatype response_data =
  NoBody
  | Body bool "AIAnalysis option" string

datatype post_outcome =
  Resolves response_data
  | Rejects js_error

text \<open>
  The \<^verbatim>\<open>try\<close> block: what it returns, or what it throws. It returns
  \<^verbatim>\<open>response.data.analysis\<close> unchecked, \<^verbatim>\<open>undefined\<close> when the property is missing.
\<close>

fun analyzePothole_try :: "post_outcome \<Rightarrow> js_error + AIAnalysis option" where
  "analyzePothole_try (Rejects e) = Inl e"
| "analyzePothole_try (Resolves NoBody) = Inl TypeError"
| "analyzePothole_try (Resolves (Body success analysis message)) =
     (if \<not> success then Inl (Error (if message \<noteq> [] then message else ''Analysis failed''))
      else Inr analysis)"

text \<open>The \<^verbatim>\<open>catch\<close> block.\<close>

fun analyzePothole_catch :: "mock_samples \<Rightarrow> js_error \<Rightarrow> js_error + AIAnalysis option" where
  "analyzePothole_catch rnd (AxiosError code st) =
     (if code = Some ''ECONNREFUSED'' then Inr (Some (getMockAnalysis rnd))
      else Inl (Error ''Failed to analyze pothole image''))"
| "analyzePothole_catch rnd e = Inl (Error ''Failed to analyze pothole image'')"

definition analyzePothole :: "mock_samples \<Rightarrow> post_outcome \<Rightarrow> js_error + AIAnalysis option" where
  "analyzePothole rnd outcome =
     (case analyzePothole_try outcome of
        Inr analysis \<Rightarrow> Inr analysis
      | Inl e \<Rightarrow> analyzePothole_catch rnd e)"

text \<open>
  The specification's connection failure (service unreachable): a rejection by axios
  with one of the codes that say that no connection to the service was made or that it
  did not answer, as the runtime (\<^verbatim>\<open>ECONNREFUSED\<close>, \<^verbatim>\<open>ENOTFOUND\<close>, \<^verbatim>\<open>ETIMEDOUT\<close>,
  \<^verbatim>\<open>EHOSTUNREACH\<close>, \<^verbatim>\<open>ENETUNREACH\<close>) or axios itself (\<^verbatim>\<open>ERR_NETWORK\<close> in a browser,
  \<^verbatim>\<open>ECONNABORTED\<close> for its timeout) reports it.
\<close>

definition unreachable_codes :: "string list" where
  "unreachable_codes =
     [''ECONNREFUSED'', ''ERR_NETWORK'', ''ETIMEDOUT'', ''ENOTFOUND'', ''EHOSTUNREACH'',
      ''ENETUNREACH'', ''ECONNABORTED'']"

fun connection_failure :: "js_error \<Rightarrow> bool" where
  "connection_failure (AxiosError (Some code) st) = (code \<in> set unreachable_codes)"
| "connection_failure _ = False"

section \<open>Report submission (components/ReportPothole.tsx, App.tsx)\<close>

record formData =
  f_location :: string
  f_description :: string
  f_severity :: severity
  f_reportedBy :: string
  f_coordinates :: lat_lng

definition default_imageUrl :: string where
  "default_imageUrl = ''https://images.pexels.com/photos/1051838/pexels-photo-1051838.jpeg?auto=compress&cs=tinysrgb&w=400''"

text \<open>
  \<^verbatim>\<open>handleSubmit\<close> hands the draft to the \<^verbatim>\<open>onSubmit\<close> prop. The component's state is
  the form data, the image preview (the empty string when there is none) and the analysis
  (absent until one has arrived). The reset of this state after the call does not touch
  the draft handed on.
\<close>

definition handleSubmit ::
  "(report_draft \<Rightarrow> 'a) \<Rightarrow> formData \<Rightarrow> string \<Rightarrow> AIAnalysis option \<Rightarrow> 'a" where
  "handleSubmit onSubmit form imagePreview ai =
     (let p = (if f_severity form = Critical then 10
               else if f_severity form = High then 8
               else if f_severity form = Medium then 5 else 3)
      in onSubmit
        \<lparr>d_location = f_location form, d_coordinates = f_coordinates form,
         d_severity = f_severity form, d_status = Pending,
         d_reportedBy = f_reportedBy form, d_description = f_description form,
         d_imageUrl = Some (if imagePreview \<noteq> [] then imagePreview else default_imageUrl),
         d_aiAnalysis = (case ai of
            Some a \<Rightarrow> Some \<lparr>ra_confidence = confidence a, ra_dimensions = a_dimensions a,
                            ra_riskLevel = riskLevel a\<rparr>
          | None \<Rightarrow> None),
         d_priority = p, d_assignedTo = None, d_resolvedAt = None\<rparr>)"

text \<open>\<^verbatim>\<open>handleReportSubmit\<close> of App.tsx: the store after \<^verbatim>\<open>addReport(reportData)\<close>.\<close>

definition handleReportSubmit ::
  "int \<Rightarrow> int \<Rightarrow> PotholeReport list \<Rightarrow> report_draft \<Rightarrow> PotholeReport list" where
  "handleReportSubmit now_id now_at prev reportData = snd (addReport reportData now_id now_at prev)"

section \<open>Dashboard (components/Dashboard.tsx)\<close>

text \<open>
  \<^verbatim>\<open>Array.prototype.sort\<close> belongs to the runtime: ECMAScript makes it a stable sort by
  the comparator, where a negative result puts the first argument first. It is an
  insertion sort here, which is stable: an element goes in front of the first one it does
  not have to follow.
\<close>

fun insert_by :: "('a \<Rightarrow> 'a \<Rightarrow> int) \<Rightarrow> 'a \<Rightarrow> 'a list \<Rightarrow> 'a list" where
  "insert_by cmp x [] = [x]"
| "insert_by cmp x (y # ys) = (if cmp x y \<le> 0 then x # y # ys else y # insert_by cmp x ys)"

definition array_sort :: "('a \<Rightarrow> 'a \<Rightarrow> int) \<Rightarrow> 'a list \<Rightarrow> 'a list" where
  "array_sort cmp xs = foldr (insert_by cmp) xs []"

text \<open>
  The comparator. Its two differences are taken exactly: \<^verbatim>\<open>sort\<close> reads only the sign of
  the result, and rounding a difference of two numbers keeps its sign.
\<close>

definition compare_reports :: "PotholeReport \<Rightarrow> PotholeReport \<Rightarrow> int" where
  "compare_reports a b =
     (if priority a \<noteq> priority b then priority b - priority a
      else reportedAt b - reportedAt a)"

definition sortedReports :: "PotholeReport list \<Rightarrow> PotholeReport list" where
  "sortedReports reports = array_sort compare_reports reports"

text \<open>The order the Dashboard is to show: higher priority first, then the later report.\<close>

definition dashboard_before :: "PotholeReport \<Rightarrow> PotholeReport \<Rightarrow> bool" where
  "dashboard_before a b =
     (priority b < priority a \<or> (priority a = priority b \<and> reportedAt b \<le> reportedAt a))"

section \<open>Analytics (components/Analytics.tsx)\<close>

text \<open>The divisor \<^verbatim>\<open>1000 * 60 * 60 * 24\<close>, product by product.\<close>

definition ms_per_day :: real where
  "ms_per_day = fl (fl (fl (1000 * 60) * 60) * 24)"

text \<open>
  \<^verbatim>\<open>reduce\<close> with its callback. The non-null assertion \<^verbatim>\<open>r.resolvedAt!\<close> checks nothing
  at run time: on a report without resolution timestamp \<^verbatim>\<open>getTime\<close> would be read from
  \<^verbatim>\<open>undefined\<close>, a \<^verbatim>\<open>TypeError\<close>. The difference of the two times, its quotient by the
  milliseconds of a day and the running sum are rounded; \<^verbatim>\<open>Math.floor\<close> is exact.
\<close>

fun reduce_days :: "real \<Rightarrow> PotholeReport list \<Rightarrow> js_error + real" where
  "reduce_days sum_acc [] = Inr sum_acc"
| "reduce_days sum_acc (r # rs) =
     (case resolvedAt r of
        None \<Rightarrow> Inl TypeError
      | Some t \<Rightarrow>
          (let days = real_of_int (math_floor
                 (fl (fl (real_of_int t - real_of_int (reportedAt r)) / ms_per_day)))
           in reduce_days (fl (sum_acc + days)) rs))"

definition avgResolutionTime :: "PotholeReport list \<Rightarrow> js_error + real" where
  "avgResolutionTime reports =
     (let resolvedReports = length (filter (\<lambda>r. status r = Resolved) reports)
      in if resolvedReports > 0
         then (case reduce_days 0
                      (filter (\<lambda>r. status r = Resolved \<and> resolvedAt r \<noteq> None) reports) of
                 Inl e \<Rightarrow> Inl e
               | Inr days_sum \<Rightarrow> Inr (fl (days_sum / real resolvedReports)))
         else Inr 0)"

text \<open>
  The specification's average: the whole days between creation and resolution of each
  resolved report that has a resolution timestamp, and the mean of these numbers, 0 when
  there are none.
\<close>

definition resolution_days :: "PotholeReport list \<Rightarrow> int list" where
  "resolution_days reports =
     concat (map (\<lambda>r. case resolvedAt r of
                         Some t \<Rightarrow>
                           if status r = Resolved
                           then [(t - reportedAt r) div (1000 * 60 * 60 * 24)] else []
                       | None \<Rightarrow> []) reports)"

definition mean_resolution_days :: "PotholeReport list \<Rightarrow> real" where
  "mean_resolution_days reports =
     (let ds = resolution_days reports
      in if ds = [] then 0 else real_of_int (sum_list ds) / real (length ds))"

section \<open>Decimal strings determine the number\<close>

declare nat_to_string.simps [simp del]

lemma of_char_digit_char: "n < 10 \<Longrightarrow> (of_char (digit_char n) :: nat) = 48 + n"
proof -
  assume "n < 10"
  then consider "n = 0" | "n = 1" | "n = 2" | "n = 3" | "n = 4" | "n = 5" | "n = 6"
    | "n = 7" | "n = 8" | "n = 9"
    by atomize_elim presburger
  then show ?thesis by cases (simp_all add: digit_char_def)
qed

lemma digit_char_inj: "n < 10 \<Longrightarrow> m < 10 \<Longrightarrow> digit_char n = digit_char m \<Longrightarrow> n = m"
proof -
  assume "n < 10" "m < 10" "digit_char n = digit_char m"
  then have "48 + n = 48 + m"
    using of_char_digit_char [of n] of_char_digit_char [of m] by presburger
  then show ?thesis by simp
qed

lemma digit_char_not_minus: "n < 10 \<Longrightarrow> digit_char n \<noteq> CHR ''-''"
proof
  assume "n < 10" and "digit_char n = CHR ''-''"
  then have "(of_char (CHR ''-'') :: nat) = 48 + n"
    using of_char_digit_char [of n] by simp
  then show False by simp
qed

lemma nat_to_string_not_Nil: "nat_to_string n \<noteq> []"
  by (subst nat_to_string.simps) simp

lemma nat_to_string_length_small: "length (nat_to_string n) = Suc 0 \<longleftrightarrow> n < 10"
proof (cases "n < 10")
  case True
  then show ?thesis by (subst nat_to_string.simps) simp
next
  case False
  then show ?thesis
    using nat_to_string_not_Nil [of "n div 10"]
    by (subst nat_to_string.simps) (simp add: Suc_le_eq)
qed

lemma nat_to_string_inj: "nat_to_string n = nat_to_string m \<Longrightarrow> n = m"
proof (induction n arbitrary: m rule: nat_to_string.induct)
  case (1 n)
  show ?case
  proof (cases "n < 10")
    case True
    from "1.prems" have "length (nat_to_string m) = Suc 0"
      using nat_to_string_length_small [of n] True by simp
    then have m: "m < 10" by (simp add: nat_to_string_length_small)
    from "1.prems" True m have "digit_char n = digit_char m"
      by (simp add: nat_to_string.simps [of n] nat_to_string.simps [of m])
    with True m show ?thesis by (rule digit_char_inj)
  next
    case False
    from "1.prems" have "length (nat_to_string m) \<noteq> Suc 0"
      using nat_to_string_length_small [of n] False by simp
    then have m: "\<not> m < 10" by (simp add: nat_to_string_length_small)
    from "1.prems" False m
    have eq: "nat_to_string (n div 10) = nat_to_string (m div 10)"
      and d: "digit_char (n mod 10) = digit_char (m mod 10)"
      by (simp_all add: nat_to_string.simps [of n] nat_to_string.simps [of m])
    from "1.IH" [OF False eq] have "n div 10 = m div 10" .
    moreover from d have "n mod 10 = m mod 10"
      by (intro digit_char_inj) simp_all
    ultimately show ?thesis by (metis div_mult_mod_eq)
  qed
qed

lemma nat_to_string_hd_not_minus: "hd (nat_to_string n) \<noteq> CHR ''-''"
proof (induction n rule: nat_to_string.induct)
  case (1 n)
  show ?case
  proof (cases "n < 10")
    case True
    then show ?thesis
      by (simp add: nat_to_string.simps [of n] digit_char_not_minus)
  next
    case False
    then show ?thesis
      using "1.IH" nat_to_string_not_Nil [of "n div 10"]
      by (simp add: nat_to_string.simps [of n])
  qed
qed

lemma number_to_string_inj: "number_to_string i = number_to_string j \<Longrightarrow> i = j"
proof -
  assume eq: "number_to_string i = number_to_string j"
  consider "i < 0" "j < 0" | "i < 0" "0 \<le> j" | "0 \<le> i" "j < 0" | "0 \<le> i" "0 \<le> j"
    by linarith
  then show ?thesis
  proof cases
    case 1
    with eq have "nat (- i) = nat (- j)"
      by (simp add: number_to_string_def nat_to_string_inj)
    with 1 show ?thesis by simp
  next
    case 2
    with eq have "CHR ''-'' # nat_to_string (nat (- i)) = nat_to_string (nat j)"
      by (simp add: number_to_string_def)
    then have "hd (nat_to_string (nat j)) = CHR ''-''"
      by (metis list.sel(1))
    then show ?thesis by (simp add: nat_to_string_hd_not_minus)
  next
    case 3
    with eq have "CHR ''-'' # nat_to_string (nat (- j)) = nat_to_string (nat i)"
      by (simp add: number_to_string_def)
    then have "hd (nat_to_string (nat i)) = CHR ''-''"
      by (metis list.sel(1))
    then show ?thesis by (simp add: nat_to_string_hd_not_minus)
  next
    case 4
    with eq have "nat i = nat j"
      by (simp add: number_to_string_def nat_to_string_inj)
    with 4 show ?thesis by simp
  qed
qed

lemma inj_number_to_string: "inj number_to_string"
  by (rule injI) (rule number_to_string_inj)

section \<open>Creating reports\<close>

lemma create_all_eq:
  "create_all calls prev =
     rev (map (\<lambda>(report, now_id, now_at). newReport report now_id now_at) calls) @ prev"
  by (induction calls arbitrary: prev) (auto simp: addReport_def)

lemma id_r_newReport: "id_r (newReport report now_id now_at) = number_to_string now_id"
  by (simp add: newReport_def)

lemma ids_create_all:
  "map id_r (create_all calls prev) =
     rev (map (\<lambda>c. number_to_string (fst (snd c))) calls) @ map id_r prev"
  by (simp add: create_all_eq rev_map split_def id_r_newReport o_def)

lemma distinct_create_all:
  "distinct (map id_r (create_all calls prev)) \<longleftrightarrow>
     distinct (map (\<lambda>c. fst (snd c)) calls) \<and> distinct (map id_r prev) \<and>
     (\<forall>c \<in> set calls. number_to_string (fst (snd c)) \<notin> id_r ` set prev)"
proof -
  have "distinct (map (\<lambda>c. number_to_string (fst (snd c))) calls) \<longleftrightarrow>
        distinct (map (\<lambda>c. fst (snd c)) calls)"
    using distinct_map [of number_to_string "map (\<lambda>c. fst (snd c)) calls"]
      inj_number_to_string
    by (simp add: o_def inj_on_def inj_def)
  then show ?thesis
    by (auto simp: ids_create_all)
qed

lemma reportedAt_create_all:
  "map reportedAt (take (length calls) (create_all calls prev)) =
     rev (map (\<lambda>c. snd (snd c)) calls)"
  by (simp add: create_all_eq rev_map split_def newReport_def o_def)

lemma sorted_wrt_rev_ge:
  "sorted_wrt (\<lambda>a b. b \<le> a) (rev xs) = sorted_wrt (\<lambda>a b. (a::int) \<le> b) xs"
  by (induction xs) (auto simp: sorted_wrt_append)

lemma sorted_create_all:
  "sorted_wrt (\<le>) (map (\<lambda>c. snd (snd c)) calls) \<Longrightarrow>
   sorted_wrt (\<lambda>a b. b \<le> a) (map reportedAt (take (length calls) (create_all calls prev)))"
  by (simp only: reportedAt_create_all sorted_wrt_rev_ge)

text \<open>
  Claim C1, as the code has it. \<^verbatim>\<open>addReport\<close> returns the finalized record and puts it
  in front of the collection; its identifier is the decimal string of the clock reading
  \<^verbatim>\<open>Date.now()\<close> and its creation timestamp the reading of \<^verbatim>\<open>new Date()\<close>. After any
  sequence of calls the store is the new reports, the last created first, in front of the
  earlier store; their creation timestamps descend when the clock did not go back. The
  identifiers of the store are pairwise different exactly when the clock readings taken
  for the identifiers are pairwise different, the earlier identifiers were, and no new
  identifier is an earlier one.
\<close>

theorem addReport_sequence:
  "fst (addReport report now_id now_at prev) = newReport report now_id now_at \<and>
   snd (addReport report now_id now_at prev) = newReport report now_id now_at # prev \<and>
   id_r (newReport report now_id now_at) = number_to_string now_id \<and>
   reportedAt (newReport report now_id now_at) = now_at \<and>
   create_all calls prev =
     rev (map (\<lambda>(report, now_id, now_at). newReport report now_id now_at) calls) @ prev \<and>
   (sorted_wrt (\<le>) (map (\<lambda>c. snd (snd c)) calls) \<longrightarrow>
      sorted_wrt (\<lambda>a b. b \<le> a)
        (map reportedAt (take (length calls) (create_all calls prev)))) \<and>
   (distinct (map id_r (create_all calls prev)) \<longleftrightarrow>
      distinct (map (\<lambda>c. fst (snd c)) calls) \<and> distinct (map id_r prev) \<and>
      (\<forall>c \<in> set calls. number_to_string (fst (snd c)) \<notin> id_r ` set prev))"
proof (intro conjI)
  show "fst (addReport report now_id now_at prev) = newReport report now_id now_at"
    and "snd (addReport report now_id now_at prev) = newReport report now_id now_at # prev"
    by (simp_all add: addReport_def)
  show "id_r (newReport report now_id now_at) = number_to_string now_id"
    and "reportedAt (newReport report now_id now_at) = now_at"
    by (simp_all add: newReport_def)
  show "create_all calls prev =
     rev (map (\<lambda>(report, now_id, now_at). newReport report now_id now_at) calls) @ prev"
    by (rule create_all_eq)
  show "sorted_wrt (\<le>) (map (\<lambda>c. snd (snd c)) calls) \<longrightarrow>
      sorted_wrt (\<lambda>a b. b \<le> a)
        (map reportedAt (take (length calls) (create_all calls prev)))"
    by (rule impI) (rule sorted_create_all)
  show "distinct (map id_r (create_all calls prev)) \<longleftrightarrow>
      distinct (map (\<lambda>c. fst (snd c)) calls) \<and> distinct (map id_r prev) \<and>
      (\<forall>c \<in> set calls. number_to_string (fst (snd c)) \<notin> id_r ` set prev)"
    by (rule distinct_create_all)
qed

theorem addReport_sequence_witness:
  "distinct (map id_r (create_all
     [(handleSubmit (\<lambda>d. d)
         \<lparr>f_location = ''Pine Street'', f_description = ''Pothole'', f_severity = Low,
          f_reportedBy = ''Ann'', f_coordinates = \<lparr>lat = 0, lng = 0\<rparr>\<rparr> [] None,
       1762000000000, 1762000000001),
      (handleSubmit (\<lambda>d. d)
         \<lparr>f_location = ''Oak Road'', f_description = ''Deep pothole'', f_severity = High,
          f_reportedBy = ''Bob'', f_coordinates = \<lparr>lat = 0, lng = 0\<rparr>\<rparr> [] None,
       1762000000250, 1762000000251)]
     mockReports)) \<and>
   map id_r (create_all
     [(handleSubmit (\<lambda>d. d)
         \<lparr>f_location = ''Pine Street'', f_description = ''Pothole'', f_severity = Low,
          f_reportedBy = ''Ann'', f_coordinates = \<lparr>lat = 0, lng = 0\<rparr>\<rparr> [] None,
       1762000000000, 1762000000001),
      (handleSubmit (\<lambda>d. d)
         \<lparr>f_location = ''Oak Road'', f_description = ''Deep pothole'', f_severity = High,
          f_reportedBy = ''Bob'', f_coordinates = \<lparr>lat = 0, lng = 0\<rparr>\<rparr> [] None,
       1762000000250, 1762000000251)]
     mockReports) = [''1762000000250'', ''1762000000000'', ''1'', ''2'', ''3''] \<and>
   map reportedAt (create_all
     [(handleSubmit (\<lambda>d. d)
         \<lparr>f_location = ''Pine Street'', f_description = ''Pothole'', f_severity = Low,
          f_reportedBy = ''Ann'', f_coordinates = \<lparr>lat = 0, lng = 0\<rparr>\<rparr> [] None,
       1762000000000, 1762000000001),
      (handleSubmit (\<lambda>d. d)
         \<lparr>f_location = ''Oak Road'', f_description = ''Deep pothole'', f_severity = High,
          f_reportedBy = ''Bob'', f_coordinates = \<lparr>lat = 0, lng = 0\<rparr>\<rparr> [] None,
       1762000000250, 1762000000251)]
     mockReports) =
     [1762000000251, 1762000000001, 1705314600000, 1705242000000, 1705050900000] \<and>
   sorted_wrt (\<lambda>a b. b \<le> a) (map reportedAt (take 2 (create_all
     [(handleSubmit (\<lambda>d. d)
         \<lparr>f_location = ''Pine Street'', f_description = ''Pothole'', f_severity = Low,
          f_reportedBy = ''Ann'', f_coordinates = \<lparr>lat = 0, lng = 0\<rparr>\<rparr> [] None,
       1762000000000, 1762000000001),
      (handleSubmit (\<lambda>d. d)
         \<lparr>f_location = ''Oak Road'', f_description = ''Deep pothole'', f_severity = High,
          f_reportedBy = ''Bob'', f_coordinates = \<lparr>lat = 0, lng = 0\<rparr>\<rparr> [] None,
       1762000000250, 1762000000251)]
     mockReports)))"
proof -
  let ?a = "handleSubmit (\<lambda>d. d)
         \<lparr>f_location = ''Pine Street'', f_description = ''Pothole'', f_severity = Low,
          f_reportedBy = ''Ann'', f_coordinates = \<lparr>lat = 0, lng = 0\<rparr>\<rparr> [] None"
  let ?b = "handleSubmit (\<lambda>d. d)
         \<lparr>f_location = ''Oak Road'', f_description = ''Deep pothole'', f_severity = High,
          f_reportedBy = ''Bob'', f_coordinates = \<lparr>lat = 0, lng = 0\<rparr>\<rparr> [] None"
  let ?calls = "[(?a, 1762000000000 :: int, 1762000000001 :: int),
      (?b, 1762000000250, 1762000000251)]"
  note seq = addReport_sequence [of ?a 1762000000000 1762000000001 mockReports ?calls]
  have ids: "map id_r mockReports = [''1'', ''2'', ''3'']"
    by (simp add: mockReports_def)
  have times: "map reportedAt mockReports = [1705314600000, 1705242000000, 1705050900000]"
    by (simp add: mockReports_def)
  have s0: "number_to_string 1762000000000 = ''1762000000000''"
    by (simp add: number_to_string_def nat_to_string.simps digit_char_def)
  have s1: "number_to_string 1762000000250 = ''1762000000250''"
    by (simp add: number_to_string_def nat_to_string.simps digit_char_def)
  have set_ids: "id_r ` set mockReports = set (map id_r mockReports)"
    by simp
  have "distinct (map (\<lambda>c. fst (snd c)) ?calls)" by simp
  moreover have "distinct (map id_r mockReports)" by (simp add: ids)
  moreover have "\<forall>c \<in> set ?calls. number_to_string (fst (snd c)) \<notin> id_r ` set mockReports"
    by (simp only: set_ids ids) (simp add: s0 s1)
  ultimately have d: "distinct (map id_r (create_all ?calls mockReports))"
    using seq by blast
  from seq have eq: "create_all ?calls mockReports =
      rev (map (\<lambda>(report, now_id, now_at). newReport report now_id now_at) ?calls) @ mockReports"
    by blast
  have i: "map id_r (create_all ?calls mockReports) =
      [''1762000000250'', ''1762000000000'', ''1'', ''2'', ''3'']"
    by (simp only: eq map_append ids) (simp add: id_r_newReport s0 s1)
  have t: "map reportedAt (create_all ?calls mockReports) =
      [1762000000251, 1762000000001, 1705314600000, 1705242000000, 1705050900000]"
    by (simp only: eq map_append times) (simp add: newReport_def)
  have "sorted_wrt (\<le>) (map (\<lambda>c. snd (snd c)) ?calls)" by simp
  with seq have "sorted_wrt (\<lambda>a b. b \<le> a)
      (map reportedAt (take (length ?calls) (create_all ?calls mockReports)))"
    by blast
  moreover have "length ?calls = 2" by simp
  ultimately have o: "sorted_wrt (\<lambda>a b. b \<le> a)
      (map reportedAt (take 2 (create_all ?calls mockReports)))"
    by (simp only:)
  from d i t o show ?thesis by blast
qed

text \<open>
  Claim C1 as it is written fails: two \<^verbatim>\<open>addReport\<close> calls within the same millisecond
  read the same \<^verbatim>\<open>Date.now()\<close> and give two reports one identifier.
\<close>

theorem addReport_ids_not_unique:
  "\<not> distinct (map id_r (create_all
     [(handleSubmit (\<lambda>d. d)
         \<lparr>f_location = ''Pine Street'', f_description = ''Pothole'', f_severity = Low,
          f_reportedBy = ''Ann'', f_coordinates = \<lparr>lat = 0, lng = 0\<rparr>\<rparr> [] None,
       1762000000000, 1762000000000),
      (handleSubmit (\<lambda>d. d)
         \<lparr>f_location = ''Oak Road'', f_description = ''Deep pothole'', f_severity = High,
          f_reportedBy = ''Bob'', f_coordinates = \<lparr>lat = 0, lng = 0\<rparr>\<rparr> [] None,
       1762000000000, 1762000000000)]
     mockReports))"
  by (simp add: addReport_def id_r_newReport)

section \<open>Updating reports\<close>

lemma updateReport_nth:
  "k < length prev \<Longrightarrow>
   updateReport i updates prev ! k =
     (if id_r (prev ! k) = i then merge (prev ! k) updates else prev ! k)"
  by (simp add: updateReport_def)

lemma updateReport_absent:
  "i \<notin> id_r ` set prev \<Longrightarrow> updateReport i updates prev = prev"
  unfolding updateReport_def by (induction prev) auto

lemma merge_no_updates: "merge report no_updates = report"
  by (simp add: merge_def no_updates_def)

text \<open>
  Claim C3. \<^verbatim>\<open>updateReport\<close> with an identifier that no report of the store has returns
  the store as it was; the function has no error result, so nothing is signalled. In
  general the store keeps its length and order, every report with the identifier becomes
  its merge with the given fields, and every other report stays as it is. The merge takes
  each field from the updates where the key is present and from the report where it is
  not; with no key present it is the report.
\<close>

theorem updateReport_merges_or_ignores:
  "(i \<notin> id_r ` set prev \<longrightarrow> updateReport i updates prev = prev) \<and>
   length (updateReport i updates prev) = length prev \<and>
   (\<forall>k < length prev.
      updateReport i updates prev ! k =
        (if id_r (prev ! k) = i then merge (prev ! k) updates else prev ! k)) \<and>
   merge report updates =
     \<lparr>id_r = (case u_id updates of None \<Rightarrow> id_r report | Some v \<Rightarrow> v),
      location = (case u_location updates of None \<Rightarrow> location report | Some v \<Rightarrow> v),
      coordinates = (case u_coordinates updates of None \<Rightarrow> coordinates report | Some v \<Rightarrow> v),
      severity = (case u_severity updates of None \<Rightarrow> severity report | Some v \<Rightarrow> v),
      status = (case u_status updates of None \<Rightarrow> status report | Some v \<Rightarrow> v),
      reportedAt = (case u_reportedAt updates of None \<Rightarrow> reportedAt report | Some v \<Rightarrow> v),
      reportedBy = (case u_reportedBy updates of None \<Rightarrow> reportedBy report | Some v \<Rightarrow> v),
      description = (case u_description updates of None \<Rightarrow> description report | Some v \<Rightarrow> v),
      imageUrl = (case u_imageUrl updates of None \<Rightarrow> imageUrl report | Some v \<Rightarrow> v),
      aiAnalysis = (case u_aiAnalysis updates of None \<Rightarrow> aiAnalysis report | Some v \<Rightarrow> v),
      priority = (case u_priority updates of None \<Rightarrow> priority report | Some v \<Rightarrow> v),
      assignedTo = (case u_assignedTo updates of None \<Rightarrow> assignedTo report | Some v \<Rightarrow> v),
      resolvedAt = (case u_resolvedAt updates of None \<Rightarrow> resolvedAt report | Some v \<Rightarrow> v)\<rparr> \<and>
   merge report no_updates = report"
proof (intro conjI allI impI)
  show "updateReport i updates prev = prev" if "i \<notin> id_r ` set prev"
    using that by (rule updateReport_absent)
  show "length (updateReport i updates prev) = length prev"
    by (simp add: updateReport_def)
  show "updateReport i updates prev ! k =
        (if id_r (prev ! k) = i then merge (prev ! k) updates else prev ! k)"
    if "k < length prev" for k
    using that by (rule updateReport_nth)
  show "merge report no_updates = report"
    by (rule merge_no_updates)
qed (rule merge_def)

theorem updateReport_merges_or_ignores_witness:
  "''7'' \<notin> id_r ` set mockReports \<and>
   updateReport ''7'' (no_updates\<lparr>u_status := Some Resolved\<rparr>) mockReports = mockReports \<and>
   (1::nat) < length mockReports \<and>
   updateReport ''2'' (no_updates\<lparr>u_priority := Some 9\<rparr>) mockReports ! 1 =
     (mockReports ! 1)\<lparr>priority := 9\<rparr> \<and>
   updateReport ''2'' (no_updates\<lparr>u_priority := Some 9\<rparr>) mockReports ! 0 = mockReports ! 0"
  using updateReport_merges_or_ignores
      [of "''7''" mockReports "no_updates\<lparr>u_status := Some Resolved\<rparr>" "mockReports ! 1"]
    updateReport_merges_or_ignores
      [of "''2''" mockReports "no_updates\<lparr>u_priority := Some 9\<rparr>" "mockReports ! 1"]
  by (simp add: mockReports_def no_updates_def)

section \<open>Handlers of the views\<close>

lemma merge_status_updates:
  "merge report (status_updates newStatus now) =
     (if newStatus = Resolved then report\<lparr>status := Resolved, resolvedAt := Some now\<rparr>
      else report\<lparr>status := newStatus\<rparr>)"
  by (simp add: merge_def status_updates_def no_updates_def Let_def)

lemma merge_assign:
  "merge report (no_updates\<lparr>u_assignedTo := Some (Some assignee), u_status := Some InProgress\<rparr>) =
     report\<lparr>assignedTo := Some assignee, status := InProgress\<rparr>"
  by (simp add: merge_def no_updates_def)

text \<open>
  Claim C6. \<^verbatim>\<open>handleStatusChange\<close> calls \<^verbatim>\<open>onUpdate\<close> once, with the card's report id and
  the new status; for \<^verbatim>\<open>resolved\<close> the same object carries the resolution timestamp, for
  any other status it has no \<^verbatim>\<open>resolvedAt\<close> key. Wired to \<^verbatim>\<open>updateReport\<close> as in App.tsx,
  a change to \<^verbatim>\<open>resolved\<close> sets status and resolution timestamp of the reports with that
  id, and a change to another status sets the status only and leaves the resolution
  timestamp as it was, set or not.
\<close>

theorem handleStatusChange_resolution_timestamp:
  "handleStatusChange onUpdate report newStatus now =
     onUpdate (id_r report)
       (if newStatus = Resolved
        then no_updates\<lparr>u_status := Some Resolved, u_resolvedAt := Some (Some now)\<rparr>
        else no_updates\<lparr>u_status := Some newStatus\<rparr>) \<and>
   handleStatusChange updateReport report newStatus now prev =
     map (\<lambda>r. if id_r r = id_r report
               then (if newStatus = Resolved
                     then r\<lparr>status := Resolved, resolvedAt := Some now\<rparr>
                     else r\<lparr>status := newStatus\<rparr>)
               else r) prev"
proof (intro conjI)
  show "handleStatusChange onUpdate report newStatus now =
     onUpdate (id_r report)
       (if newStatus = Resolved
        then no_updates\<lparr>u_status := Some Resolved, u_resolvedAt := Some (Some now)\<rparr>
        else no_updates\<lparr>u_status := Some newStatus\<rparr>)"
    by (simp add: handleStatusChange_def status_updates_def)
  have "handleStatusChange updateReport report newStatus now prev =
     updateReport (id_r report) (status_updates newStatus now) prev"
    by (simp add: handleStatusChange_def)
  also have "\<dots> =
     map (\<lambda>r. if id_r r = id_r report
               then (if newStatus = Resolved
                     then r\<lparr>status := Resolved, resolvedAt := Some now\<rparr>
                     else r\<lparr>status := newStatus\<rparr>)
               else r) prev"
    by (simp add: updateReport_def merge_status_updates)
  finally show "handleStatusChange updateReport report newStatus now prev =
     map (\<lambda>r. if id_r r = id_r report
               then (if newStatus = Resolved
                     then r\<lparr>status := Resolved, resolvedAt := Some now\<rparr>
                     else r\<lparr>status := newStatus\<rparr>)
               else r) prev" .
qed

text \<open>
  Claim C10. \<^verbatim>\<open>handleAssign\<close> calls \<^verbatim>\<open>onUpdateReport\<close> once, with an object of two keys:
  the chosen assignee (the empty string of "Unassigned" too) and the status
  \<^verbatim>\<open>in-progress\<close>. Wired to \<^verbatim>\<open>updateReport\<close>, the reports with that id get both fields,
  whatever their status was, and nothing else changes.
\<close>

theorem handleAssign_sets_assignee_and_status:
  "handleAssign onUpdateReport reportId assignee =
     onUpdateReport reportId
       (no_updates\<lparr>u_assignedTo := Some (Some assignee), u_status := Some InProgress\<rparr>) \<and>
   handleAssign updateReport reportId assignee prev =
     map (\<lambda>r. if id_r r = reportId
               then r\<lparr>assignedTo := Some assignee, status := InProgress\<rparr> else r) prev"
proof (intro conjI)
  show "handleAssign onUpdateReport reportId assignee =
     onUpdateReport reportId
       (no_updates\<lparr>u_assignedTo := Some (Some assignee), u_status := Some InProgress\<rparr>)"
    by (simp add: handleAssign_def)
  have "handleAssign updateReport reportId assignee prev =
     updateReport reportId
       (no_updates\<lparr>u_assignedTo := Some (Some assignee), u_status := Some InProgress\<rparr>) prev"
    by (simp add: handleAssign_def)
  also have "\<dots> =
     map (\<lambda>r. if id_r r = reportId
               then r\<lparr>assignedTo := Some assignee, status := InProgress\<rparr> else r) prev"
    by (simp add: updateReport_def merge_assign)
  finally show "handleAssign updateReport reportId assignee prev =
     map (\<lambda>r. if id_r r = reportId
               then r\<lparr>assignedTo := Some assignee, status := InProgress\<rparr> else r) prev" .
qed

section \<open>Identifier and creation timestamp\<close>

lemma key_of_merge:
  "u_id updates = None \<Longrightarrow> u_reportedAt updates = None \<Longrightarrow>
   key_of (merge report updates) = key_of report"
  by (simp add: key_of_def merge_def)

lemma keys_updateReport:
  "u_id updates = None \<Longrightarrow> u_reportedAt updates = None \<Longrightarrow>
   map key_of (updateReport i updates prev) = map key_of prev"
  by (simp add: updateReport_def key_of_merge)

lemma run_ops_snoc: "run_ops (ops @ [op]) s = apply_op op (run_ops ops s)"
  by (simp add: run_ops_def)

lemma count_adds_snoc:
  "count_adds (ops @ [op]) =
     (case op of Add d a b \<Rightarrow> Suc (count_adds ops) | _ \<Rightarrow> count_adds ops)"
  by (induction ops rule: count_adds.induct) (auto split: store_op.splits)

lemma drop_filter_subseq: "subseq (drop n (filter P xs)) (drop n xs)"
proof (induction xs arbitrary: n)
  case Nil
  then show ?case by simp
next
  case (Cons x xs)
  show ?case
  proof (cases n)
    case 0
    then show ?thesis by (simp only: drop_0 subseq_filter_left)
  next
    case (Suc m)
    show ?thesis
    proof (cases "P x")
      case True
      with Suc Cons.IH [of m] show ?thesis by simp
    next
      case False
      have "subseq (drop (Suc m) (filter P xs)) (drop m (filter P xs))"
      proof -
        have "drop (Suc m) (filter P xs) = drop 1 (drop m (filter P xs))" by simp
        then show ?thesis
          by (metis suffix_drop suffix_imp_subseq)
      qed
      with False Suc Cons.IH [of m] show ?thesis
        using subseq_order.trans by auto
    qed
  qed
qed

lemma keys_run_ops_subseq:
  "\<forall>op \<in> set ops. keeps_identity op \<Longrightarrow>
   subseq (map key_of (drop (count_adds ops) (run_ops ops s))) (map key_of s)"
proof (induction ops rule: rev_induct)
  case Nil
  then show ?case by (simp add: run_ops_def)
next
  case (snoc op ops)
  then have IH: "subseq (map key_of (drop (count_adds ops) (run_ops ops s))) (map key_of s)"
    by simp
  show ?case
  proof (cases op)
    case (Add d a b)
    with IH show ?thesis
      by (simp add: run_ops_snoc count_adds_snoc addReport_def)
  next
    case (Update i u)
    with snoc.prems have "u_id u = None" "u_reportedAt u = None" by simp_all
    then have "map key_of (drop (count_adds ops) (updateReport i u (run_ops ops s))) =
               map key_of (drop (count_adds ops) (run_ops ops s))"
      using keys_updateReport [of u i "run_ops ops s"] by (simp add: drop_map [symmetric])
    with IH Update show ?thesis
      by (simp add: run_ops_snoc count_adds_snoc)
  next
    case (Delete i)
    have "subseq (map key_of (drop (count_adds ops) (deleteReport i (run_ops ops s))))
            (map key_of (drop (count_adds ops) (run_ops ops s)))"
      unfolding deleteReport_def by (intro subseq_map drop_filter_subseq)
    with IH Delete show ?thesis
      using subseq_order.trans by (simp add: run_ops_snoc count_adds_snoc)
  qed
qed

lemma length_run_ops:
  "\<forall>op \<in> set ops. \<not> is_delete op \<Longrightarrow> length (run_ops ops s) = count_adds ops + length s"
proof (induction ops rule: rev_induct)
  case Nil
  then show ?case by (simp add: run_ops_def)
next
  case (snoc op ops)
  then show ?case
    by (cases op) (simp_all add: run_ops_snoc count_adds_snoc addReport_def updateReport_def)
qed

lemma keys_run_ops_eq:
  assumes "\<forall>op \<in> set ops. keeps_identity op" and "\<forall>op \<in> set ops. \<not> is_delete op"
  shows "map key_of (drop (count_adds ops) (run_ops ops s)) = map key_of s"
proof -
  have "length (map key_of (drop (count_adds ops) (run_ops ops s))) = length (map key_of s)"
    using length_run_ops [OF assms(2), of s] by simp
  with keys_run_ops_subseq [OF assms(1), of s] show ?thesis
    by (metis subseq_same_length)
qed

lemma handlers_keep_identity:
  "keeps_identity (handleStatusChange Update report newStatus now)"
  "keeps_identity (handleAssign Update reportId assignee)"
  "keeps_identity (handlePriorityChange Update reportId p)"
  "keeps_identity (Add d now_id now_at)"
  "keeps_identity (Delete i)"
  by (simp_all add: handleStatusChange_def handleAssign_def handlePriorityChange_def
      status_updates_def no_updates_def Let_def)

text \<open>
  Claim C4, as the code has it. Take any sequence of store operations (add, update,
  delete) in which no update carries an \<^verbatim>\<open>id\<close> or a \<^verbatim>\<open>reportedAt\<close> key. Behind the
  reports added meanwhile, the store then holds earlier reports only, in their order, each
  with the identifier and creation timestamp it had; without a delete these are all the
  earlier reports. Every update the views issue (status change, assignment, priority
  change) is of this kind.
\<close>

theorem identity_kept_without_id_keys:
  assumes "\<forall>op \<in> set ops. keeps_identity op"
  shows "subseq (map key_of (drop (count_adds ops) (run_ops ops s))) (map key_of s) \<and>
         ((\<forall>op \<in> set ops. \<not> is_delete op) \<longrightarrow>
            map key_of (drop (count_adds ops) (run_ops ops s)) = map key_of s) \<and>
         keeps_identity (handleStatusChange Update report newStatus now) \<and>
         keeps_identity (handleAssign Update reportId assignee) \<and>
         keeps_identity (handlePriorityChange Update reportId p) \<and>
         keeps_identity (Add d now_id now_at) \<and>
         keeps_identity (Delete i)"
  using keys_run_ops_subseq [OF assms, of s] keys_run_ops_eq [OF assms, of s]
  by (simp only: handlers_keep_identity simp_thms) blast

theorem identity_kept_without_id_keys_witness:
  "keeps_identity (handleStatusChange Update (mockReports ! 0) Resolved 1762000000000) \<and>
   keeps_identity (handleAssign Update ''1'' ''Mike Johnson'') \<and>
   map key_of (drop 1 (run_ops
      [handleStatusChange Update (mockReports ! 0) Resolved 1762000000000,
       Add (handleSubmit (\<lambda>d. d)
         \<lparr>f_location = ''Pine Street'', f_description = ''Pothole'', f_severity = Low,
          f_reportedBy = ''Ann'', f_coordinates = \<lparr>lat = 0, lng = 0\<rparr>\<rparr> [] None)
         1762000000000 1762000000001,
       handleAssign Update ''1'' ''Mike Johnson''] mockReports)) =
   [(''1'', 1705314600000), (''2'', 1705242000000), (''3'', 1705050900000)]"
proof -
  let ?ops = "[handleStatusChange Update (mockReports ! 0) Resolved 1762000000000,
       Add (handleSubmit (\<lambda>d. d)
         \<lparr>f_location = ''Pine Street'', f_description = ''Pothole'', f_severity = Low,
          f_reportedBy = ''Ann'', f_coordinates = \<lparr>lat = 0, lng = 0\<rparr>\<rparr> [] None)
         1762000000000 1762000000001,
       handleAssign Update ''1'' ''Mike Johnson'']"
  have keeps: "\<forall>op \<in> set ?ops. keeps_identity op"
    by (simp add: handlers_keep_identity)
  have no_delete: "\<forall>op \<in> set ?ops. \<not> is_delete op"
    by (simp add: handleStatusChange_def handleAssign_def)
  have adds: "count_adds ?ops = 1"
    by (simp add: handleStatusChange_def handleAssign_def)
  from identity_kept_without_id_keys [OF keeps, of mockReports] no_delete
  have "map key_of (drop (count_adds ?ops) (run_ops ?ops mockReports)) = map key_of mockReports"
    by blast
  then have "map key_of (drop 1 (run_ops ?ops mockReports)) = map key_of mockReports"
    by (simp only: adds)
  moreover have "map key_of mockReports =
      [(''1'', 1705314600000), (''2'', 1705242000000), (''3'', 1705050900000)]"
    by (simp add: key_of_def mockReports_def)
  ultimately show ?thesis
    by (simp only: handlers_keep_identity simp_thms)
qed

text \<open>
  Claim C4 as it is written fails: \<^verbatim>\<open>updateReport\<close> merges whatever keys it is given,
  the \<^verbatim>\<open>id\<close> and \<^verbatim>\<open>reportedAt\<close> keys of \<^verbatim>\<open>Partial<PotholeReport>\<close> included.
\<close>

theorem update_can_change_identity:
  "key_of (updateReport ''1'' (no_updates\<lparr>u_id := Some ''9'', u_reportedAt := Some 0\<rparr>) mockReports ! 0)
     = (''9'', 0) \<and>
   key_of (mockReports ! 0) = (''1'', 1705314600000)"
  by (simp add: updateReport_def merge_def no_updates_def key_of_def mockReports_def)


section \<open>Submitting a report\<close>

text \<open>
  Claim C8. \<^verbatim>\<open>handleSubmit\<close> has no priority input: the draft's priority is computed from
  the form's severity. Submitted through \<^verbatim>\<open>handleReportSubmit\<close> and \<^verbatim>\<open>addReport\<close>, the
  report put in front of the store has priority 10 for critical, 8 for high, 5 for medium
  and 3 for low, and the status \<^verbatim>\<open>pending\<close>.
\<close>

theorem handleSubmit_default_priority:
  "handleSubmit (handleReportSubmit now_id now_at prev) form imagePreview ai =
     newReport (handleSubmit (\<lambda>d. d) form imagePreview ai) now_id now_at # prev \<and>
   priority (newReport (handleSubmit (\<lambda>d. d) form imagePreview ai) now_id now_at) =
     (case f_severity form of Critical \<Rightarrow> 10 | High \<Rightarrow> 8 | Medium \<Rightarrow> 5 | Low \<Rightarrow> 3) \<and>
   severity (newReport (handleSubmit (\<lambda>d. d) form imagePreview ai) now_id now_at) =
     f_severity form \<and>
   status (newReport (handleSubmit (\<lambda>d. d) form imagePreview ai) now_id now_at) = Pending"
  by (cases "f_severity form")
    (simp_all add: handleSubmit_def handleReportSubmit_def addReport_def newReport_def)

section \<open>The Dashboard's order\<close>

lemma mset_insert_by: "mset (insert_by cmp x xs) = add_mset x (mset xs)"
  by (induction xs) simp_all

lemma mset_array_sort: "mset (array_sort cmp xs) = mset xs"
  unfolding array_sort_def by (induction xs) (simp_all add: mset_insert_by)

lemma set_insert_by: "set (insert_by cmp x xs) = insert x (set xs)"
  using mset_insert_by [of cmp x xs, THEN arg_cong, of set_mset] by simp

lemma compare_reports_le: "compare_reports a b \<le> 0 \<longleftrightarrow> dashboard_before a b"
  by (auto simp: compare_reports_def dashboard_before_def)

lemma dashboard_before_total: "\<not> dashboard_before a b \<Longrightarrow> dashboard_before b a"
  by (auto simp: dashboard_before_def)

lemma dashboard_before_trans:
  "dashboard_before a b \<Longrightarrow> dashboard_before b c \<Longrightarrow> dashboard_before a c"
  by (auto simp: dashboard_before_def)

lemma sorted_insert_by:
  "sorted_wrt dashboard_before xs \<Longrightarrow>
   sorted_wrt dashboard_before (insert_by compare_reports x xs)"
proof (induction xs)
  case Nil
  then show ?case by simp
next
  case (Cons y ys)
  show ?case
  proof (cases "compare_reports x y \<le> 0")
    case True
    then have "dashboard_before x y" by (simp add: compare_reports_le)
    with Cons.prems have "\<forall>z \<in> set (y # ys). dashboard_before x z"
      by (auto intro: dashboard_before_trans)
    with True Cons.prems show ?thesis by simp
  next
    case False
    then have "dashboard_before y x"
      by (simp add: compare_reports_le dashboard_before_total)
    with False Cons show ?thesis
      by (auto simp: set_insert_by)
  qed
qed

lemma sorted_sortedReports: "sorted_wrt dashboard_before (sortedReports reports)"
  unfolding sortedReports_def array_sort_def
  by (induction reports) (simp_all add: sorted_insert_by)

lemma sortedReports_example:
  assumes "priority a = 3" "priority b = 8" "priority c = 8" "priority d = 5"
    and "reportedAt b \<noteq> reportedAt c"
  shows "sortedReports [a, b, c, d] =
     (if reportedAt c < reportedAt b then [b, c, d, a] else [c, b, d, a])"
  using assms by (simp add: sortedReports_def array_sort_def compare_reports_def)

text \<open>
  Claim C9. The Dashboard's list is a rearrangement of the reports in which every report
  stands before every report of lower priority and, among reports of one priority, before
  every report created earlier. For reports of priorities 3, 8, 8, 5, in this order, with
  different creation times of the two of priority 8, the list is: the later of the two,
  the earlier, the report of priority 5, the report of priority 3.
\<close>

theorem sortedReports_priority_then_recent:
  "sorted_wrt dashboard_before (sortedReports reports) \<and>
   mset (sortedReports reports) = mset reports \<and>
   (dashboard_before a b \<longleftrightarrow>
      priority b < priority a \<or> (priority a = priority b \<and> reportedAt b \<le> reportedAt a)) \<and>
   (priority a = 3 \<and> priority b = 8 \<and> priority c = 8 \<and> priority d = 5 \<and>
    reportedAt b \<noteq> reportedAt c \<longrightarrow>
      sortedReports [a, b, c, d] =
        (if reportedAt c < reportedAt b then [b, c, d, a] else [c, b, d, a]))"
  using sorted_sortedReports [of reports] sortedReports_example [of a b c d]
  by (simp add: sortedReports_def mset_array_sort dashboard_before_def)

theorem sortedReports_priority_then_recent_witness:
  "map priority
     [(mockReports ! 0)\<lparr>id_r := ''4'', priority := 3\<rparr>, mockReports ! 0,
      (mockReports ! 1)\<lparr>priority := 8\<rparr>, mockReports ! 2] = [3, 8, 8, 5] \<and>
   reportedAt ((mockReports ! 1)\<lparr>priority := 8\<rparr>) < reportedAt (mockReports ! 0) \<and>
   sortedReports
     [(mockReports ! 0)\<lparr>id_r := ''4'', priority := 3\<rparr>, mockReports ! 0,
      (mockReports ! 1)\<lparr>priority := 8\<rparr>, mockReports ! 2] =
     [mockReports ! 0, (mockReports ! 1)\<lparr>priority := 8\<rparr>, mockReports ! 2,
      (mockReports ! 0)\<lparr>id_r := ''4'', priority := 3\<rparr>]"
proof -
  have p: "priority ((mockReports ! 0)\<lparr>id_r := ''4'', priority := 3\<rparr>) = 3"
    "priority (mockReports ! 0) = 8" "priority ((mockReports ! 1)\<lparr>priority := 8\<rparr>) = 8"
    "priority (mockReports ! 2) = 5"
    by (simp_all add: mockReports_def)
  have t: "reportedAt ((mockReports ! 1)\<lparr>priority := 8\<rparr>) < reportedAt (mockReports ! 0)"
    by (simp add: mockReports_def)
  from sortedReports_priority_then_recent
    [of "[]" "(mockReports ! 0)\<lparr>id_r := ''4'', priority := 3\<rparr>" "mockReports ! 0"
      "(mockReports ! 1)\<lparr>priority := 8\<rparr>" "mockReports ! 2"] p t
  have "sortedReports
     [(mockReports ! 0)\<lparr>id_r := ''4'', priority := 3\<rparr>, mockReports ! 0,
      (mockReports ! 1)\<lparr>priority := 8\<rparr>, mockReports ! 2] =
     [mockReports ! 0, (mockReports ! 1)\<lparr>priority := 8\<rparr>, mockReports ! 2,
      (mockReports ! 0)\<lparr>id_r := ''4'', priority := 3\<rparr>]"
    by simp
  with p t show ?thesis by simp
qed

section \<open>Rounding to double precision\<close>

declare bit_length.simps [simp del]

lemma bit_length_nonneg: "0 \<le> bit_length n"
  by (induction n rule: bit_length.induct) (subst bit_length.simps, simp)

lemma bit_length_bounds:
  "0 < n \<Longrightarrow> 2 ^ nat (bit_length n - 1) \<le> n \<and> n < 2 ^ nat (bit_length n)"
proof (induction n rule: bit_length.induct)
  case (1 n)
  show ?case
  proof (cases "n div 2 = 0")
    case True
    with "1.prems" have "n = 1" by presburger
    then show ?thesis
      by (simp add: bit_length.simps [of 1] bit_length.simps [of 0])
  next
    case False
    with "1.prems" have pos: "0 < n div 2" by presburger
    let ?b = "bit_length (n div 2)"
    from "1.IH" "1.prems" pos
    have IH: "2 ^ nat (?b - 1) \<le> n div 2" "n div 2 < 2 ^ nat ?b" by simp_all
    have b: "1 \<le> ?b"
      using pos bit_length_nonneg [of "n div 2 div 2"]
      by (subst bit_length.simps) simp
    have eq: "bit_length n = ?b + 1"
      using "1.prems" by (subst bit_length.simps) simp
    have p: "(2::int) ^ nat ?b = 2 * 2 ^ nat (?b - 1)"
      using b by (metis Suc_nat_eq_nat_zadd1 add.commute diff_add_cancel
          diff_ge_0_iff_ge power_Suc)
    have q: "(2::int) ^ nat (?b + 1) = 2 * 2 ^ nat ?b"
      using b by (simp add: nat_add_distrib)
    have "2 * (n div 2) \<le> n" "n \<le> 2 * (n div 2) + 1" by presburger+
    with IH p q show ?thesis
      by (simp add: eq)
  qed
qed

lemma powi_nat: "0 \<le> k \<Longrightarrow> (2::real) powi k = 2 ^ nat k"
  by (simp add: power_int_def)

lemma ilog2_bounds:
  assumes "0 < x"
  shows "2 powi ilog2 x \<le> x" and "x < 2 powi (ilog2 x + 1)"
proof -
  have "2 powi ilog2 x \<le> x \<and> x < 2 powi (ilog2 x + 1)"
  proof (cases "1 \<le> x")
    case True
    let ?n = "\<lfloor>x\<rfloor>"
    from True have n: "0 < ?n" by simp
    let ?b = "bit_length ?n"
    from bit_length_bounds [OF n]
    have lo: "2 ^ nat (?b - 1) \<le> ?n" and hi: "?n < 2 ^ nat ?b" by simp_all
    have b: "1 \<le> ?b"
      using n bit_length_nonneg [of "?n div 2"] by (subst bit_length.simps) simp
    have k: "ilog2 x = ?b - 1" using True by (simp add: ilog2_def)
    have "(2::real) ^ nat (?b - 1) \<le> of_int ?n"
      using lo by (metis of_int_le_iff of_int_numeral of_int_power)
    then have "(2::real) ^ nat (?b - 1) \<le> x"
      using of_int_floor_le [of x] by linarith
    then have 1: "2 powi (?b - 1) \<le> x"
      using b by (simp only: powi_nat diff_ge_0_iff_ge)
    have "?n + 1 \<le> 2 ^ nat ?b" using hi by simp
    then have "of_int (?n + 1) \<le> (2::real) ^ nat ?b"
      by (metis of_int_le_iff of_int_numeral of_int_power)
    then have "x < (2::real) ^ nat ?b"
      using floor_correct [of x] by (simp only: of_int_add of_int_1) linarith
    then have 2: "x < 2 powi ?b"
      using b by (simp add: powi_nat)
    from 1 2 show ?thesis by (simp add: k)
  next
    case False
    with assms have x: "0 < x" "x < 1" by simp_all
    let ?y = "1 / x"
    have y: "1 < ?y" using x by simp
    let ?m = "\<lceil>?y\<rceil> - 1"
    have m: "0 < ?m" using y by linarith
    let ?j = "bit_length ?m"
    from bit_length_bounds [OF m]
    have lo: "2 ^ nat (?j - 1) \<le> ?m" and hi: "?m < 2 ^ nat ?j" by simp_all
    have j: "1 \<le> ?j"
      using m bit_length_nonneg [of "?m div 2"] by (subst bit_length.simps) simp
    have k: "ilog2 x = - ?j" using False by (simp add: ilog2_def)
    have my: "of_int ?m < ?y" "?y \<le> of_int ?m + 1" by linarith+
    have "(2::real) ^ nat (?j - 1) \<le> of_int ?m"
      using lo by (metis of_int_le_iff of_int_numeral of_int_power)
    with my have a: "(2::real) ^ nat (?j - 1) < ?y" by linarith
    have "?m + 1 \<le> 2 ^ nat ?j" using hi by simp
    then have "of_int (?m + 1) \<le> (2::real) ^ nat ?j"
      by (metis of_int_le_iff of_int_numeral of_int_power)
    then have "of_int ?m + 1 \<le> (2::real) ^ nat ?j"
      by (simp only: of_int_add of_int_1)
    with my have c: "?y \<le> (2::real) ^ nat ?j" by linarith
    have 1: "2 powi (- ?j) \<le> x"
    proof -
      have "1 \<le> 2 ^ nat ?j * x"
        using c x by (simp add: field_simps)
      then have "1 / 2 ^ nat ?j \<le> x"
        by (simp add: field_simps)
      moreover have "(2::real) powi (- ?j) = 1 / 2 ^ nat ?j"
        using j by (simp add: power_int_minus powi_nat field_simps)
      ultimately show ?thesis by simp
    qed
    have 2: "x < 2 powi (- ?j + 1)"
    proof -
      have "2 ^ nat (?j - 1) * x < 1"
        using a x by (simp add: field_simps)
      then have "x < 1 / 2 ^ nat (?j - 1)"
        by (simp add: field_simps)
      moreover have "(2::real) powi (- ?j + 1) = 1 / 2 ^ nat (?j - 1)"
        using j power_int_minus [of "2::real" "?j - 1"] by (simp add: powi_nat field_simps)
      ultimately show ?thesis by simp
    qed
    from 1 2 show ?thesis by (simp add: k)
  qed
  then show "2 powi ilog2 x \<le> x" and "x < 2 powi (ilog2 x + 1)" by simp_all
qed

lemma powi_less_cancel: "(2::real) powi a < 2 powi b \<Longrightarrow> a < b"
proof (rule ccontr)
  assume "(2::real) powi a < 2 powi b" and "\<not> a < b"
  then have "b \<le> a" by simp
  then have "(2::real) powi b \<le> 2 powi a"
    by (intro power_int_increasing) simp_all
  with \<open>(2::real) powi a < 2 powi b\<close> show False by simp
qed

lemma ilog2_unique:
  assumes "0 < x" "2 powi k \<le> x" "x < 2 powi (k + 1)"
  shows "ilog2 x = k"
proof -
  from ilog2_bounds [OF assms(1)] assms(2,3)
  have a: "(2::real) powi ilog2 x < 2 powi (k + 1)"
    and b: "(2::real) powi k < 2 powi (ilog2 x + 1)"
    by linarith+
  from a have "ilog2 x < k + 1" by (rule powi_less_cancel)
  moreover from b have "k < ilog2 x + 1" by (rule powi_less_cancel)
  ultimately show ?thesis by simp
qed

lemma ilog2_mono: "0 < x \<Longrightarrow> x \<le> y \<Longrightarrow> ilog2 x \<le> ilog2 y"
proof -
  assume a: "0 < x" "x \<le> y"
  then have "0 < y" by simp
  from ilog2_bounds [OF a(1)] ilog2_bounds [OF this] a(2)
  have "(2::real) powi ilog2 x < 2 powi (ilog2 y + 1)" by linarith
  then have "ilog2 x < ilog2 y + 1" by (rule powi_less_cancel)
  then show ?thesis by simp
qed

lemmas fl_eval = fl_def ulp_exponent_def ilog2_def round_half_even_def Let_def bit_length.simps

lemma round_half_even_of_int: "round_half_even (of_int n) = n"
  by (simp add: round_half_even_def)

lemma round_half_even_bounds:
  "\<lfloor>x\<rfloor> \<le> round_half_even x" "round_half_even x \<le> \<lfloor>x\<rfloor> + 1"
  by (simp_all add: round_half_even_def Let_def)

lemma round_half_even_mono: "x \<le> y \<Longrightarrow> round_half_even x \<le> round_half_even y"
proof -
  assume xy: "x \<le> y"
  then have f: "\<lfloor>x\<rfloor> \<le> \<lfloor>y\<rfloor>" by (rule floor_mono)
  show ?thesis
  proof (cases "\<lfloor>x\<rfloor> = \<lfloor>y\<rfloor>")
    case True
    with xy show ?thesis
      by (auto simp: round_half_even_def Let_def)
  next
    case False
    with f have "\<lfloor>x\<rfloor> + 1 \<le> \<lfloor>y\<rfloor>" by simp
    with round_half_even_bounds(2) [of x] round_half_even_bounds(1) [of y]
    show ?thesis by linarith
  qed
qed

lemma round_half_even_ge: "of_int n \<le> x \<Longrightarrow> n \<le> round_half_even x"
  using round_half_even_mono [of "of_int n" x] by (simp add: round_half_even_of_int)

lemma round_half_even_le: "x \<le> of_int n \<Longrightarrow> round_half_even x \<le> n"
  using round_half_even_mono [of x "of_int n"] by (simp add: round_half_even_of_int)

lemma ulp_exponent_mono: "0 < x \<Longrightarrow> x \<le> y \<Longrightarrow> ulp_exponent x \<le> ulp_exponent y"
  using ilog2_mono [of x y] by (simp add: ulp_exponent_def)

lemma fl_pos_eq:
  "0 < x \<Longrightarrow> fl x = of_int (round_half_even (x / 2 powi ulp_exponent x)) * 2 powi ulp_exponent x"
  by (simp add: fl_def)

lemma powi_add: "(2::real) powi (a + b) = 2 powi a * 2 powi b"
  by (simp add: power_int_add)

lemma powi_split: "(2::real) powi a = 2 powi (a - b) * 2 powi b"
  by (subst powi_add [symmetric]) simp

lemma scaled_less:
  assumes "0 < x"
  shows "x / 2 powi ulp_exponent x < 2 powi 53"
proof -
  let ?k = "ilog2 x"
  let ?e = "ulp_exponent x"
  have e: "?k + 1 - 53 \<le> ?e" using assms by (simp add: ulp_exponent_def)
  have "x < 2 powi (?k + 1)" using ilog2_bounds(2) [OF assms] .
  also have "(2::real) powi (?k + 1) = 2 powi (?k + 1 - 53) * 2 powi 53"
    by (rule powi_split)
  also have "\<dots> \<le> 2 powi ?e * 2 powi 53"
    using e by (intro mult_right_mono power_int_increasing) simp_all
  finally have "x < 2 powi 53 * 2 powi ?e" by (simp only: mult.commute)
  moreover have "(0::real) < 2 powi ?e" by simp
  ultimately show ?thesis by (simp only: pos_divide_less_eq)
qed

lemma scaled_ge:
  assumes "0 < x" and "- 1074 \<le> ilog2 x - 52"
  shows "2 powi 52 \<le> x / 2 powi ulp_exponent x"
proof -
  let ?k = "ilog2 x"
  have e: "ulp_exponent x = ?k - 52" using assms by (simp add: ulp_exponent_def)
  have "(2::real) powi ?k = 2 powi (?k - 52) * 2 powi 52"
    by (rule powi_split)
  with ilog2_bounds(1) [OF assms(1)] have "2 powi 52 * 2 powi (?k - 52) \<le> x"
    by (simp only: mult.commute)
  moreover have "(0::real) < 2 powi (?k - 52)" by simp
  ultimately show ?thesis by (simp only: e pos_le_divide_eq)
qed

lemma fl_nonneg: "0 \<le> x \<Longrightarrow> 0 \<le> fl x"
proof (cases "x = 0")
  case True
  then show ?thesis by (simp add: fl_def)
next
  case False
  assume "0 \<le> x"
  with False have x: "0 < x" by simp
  then have "of_int 0 \<le> x / 2 powi ulp_exponent x" by simp
  then have "0 \<le> round_half_even (x / 2 powi ulp_exponent x)"
    by (rule round_half_even_ge)
  then show ?thesis using x by (simp add: fl_pos_eq)
qed

lemma fl_upper:
  assumes "0 < x"
  shows "fl x \<le> 2 powi (ulp_exponent x + 53)"
proof -
  let ?e = "ulp_exponent x"
  let ?m = "round_half_even (x / 2 powi ?e)"
  have "(2::real) powi 53 = of_int (2 ^ 53)" by simp
  with scaled_less [OF assms] have "x / 2 powi ?e \<le> of_int (2 ^ 53)"
    by (simp only:)
  then have "?m \<le> 2 ^ 53"
    by (rule round_half_even_le)
  then have "real_of_int ?m \<le> of_int (2 ^ 53)"
    by (simp only: of_int_le_iff)
  then have "real_of_int ?m \<le> 2 powi 53" by simp
  then have "real_of_int ?m * 2 powi ?e \<le> 2 powi 53 * 2 powi ?e"
    by (intro mult_right_mono) simp_all
  also have "\<dots> = 2 powi (?e + 53)"
    by (simp only: powi_add mult.commute)
  finally show ?thesis by (simp only: fl_pos_eq [OF assms])
qed

lemma fl_lower:
  assumes "0 < x" and "- 1074 \<le> ilog2 x - 52"
  shows "2 powi (ulp_exponent x + 52) \<le> fl x"
proof -
  let ?e = "ulp_exponent x"
  let ?m = "round_half_even (x / 2 powi ?e)"
  have "(2::real) powi 52 = of_int (2 ^ 52)" by simp
  with scaled_ge [OF assms] have "of_int (2 ^ 52) \<le> x / 2 powi ?e"
    by (simp only:)
  then have "2 ^ 52 \<le> ?m"
    by (rule round_half_even_ge)
  then have "of_int (2 ^ 52) \<le> real_of_int ?m"
    by (simp only: of_int_le_iff)
  then have "2 powi 52 \<le> real_of_int ?m" by simp
  then have "2 powi 52 * 2 powi ?e \<le> real_of_int ?m * 2 powi ?e"
    by (intro mult_right_mono) simp_all
  moreover have "2 powi 52 * 2 powi ?e = (2::real) powi (?e + 52)"
    by (simp only: powi_add mult.commute)
  ultimately show ?thesis by (simp only: fl_pos_eq [OF assms(1)])
qed

lemma fl_mono:
  assumes "0 \<le> x" and "x \<le> y"
  shows "fl x \<le> fl y"
proof (cases "x = 0")
  case True
  with assms show ?thesis using fl_nonneg [of y] by (simp add: fl_def)
next
  case False
  with assms have x: "0 < x" and y: "0 < y" by simp_all
  have e: "ulp_exponent x \<le> ulp_exponent y"
    using x assms(2) by (rule ulp_exponent_mono)
  show ?thesis
  proof (cases "ulp_exponent x = ulp_exponent y")
    case True
    have "x / 2 powi ulp_exponent y \<le> y / 2 powi ulp_exponent y"
      using assms(2) by (intro divide_right_mono) simp_all
    then have "round_half_even (x / 2 powi ulp_exponent y) \<le>
        round_half_even (y / 2 powi ulp_exponent y)"
      by (rule round_half_even_mono)
    then have "of_int (round_half_even (x / 2 powi ulp_exponent y)) * 2 powi ulp_exponent y \<le>
        of_int (round_half_even (y / 2 powi ulp_exponent y)) * (2::real) powi ulp_exponent y"
      by (intro mult_right_mono) simp_all
    then show ?thesis using x y True by (simp add: fl_pos_eq)
  next
    case False
    with e have less: "ulp_exponent x + 1 \<le> ulp_exponent y" by simp
    then have "- 1074 < ulp_exponent y" by (simp add: ulp_exponent_def)
    then have n: "- 1074 \<le> ilog2 y - 52" using y by (simp add: ulp_exponent_def)
    have "fl x \<le> 2 powi (ulp_exponent x + 53)" using x by (rule fl_upper)
    also have "\<dots> \<le> 2 powi (ulp_exponent y + 52)"
      using less by (intro power_int_increasing) simp_all
    also have "\<dots> \<le> fl y" using y n by (rule fl_lower)
    finally show ?thesis .
  qed
qed

lemma fl_of_int:
  assumes "0 \<le> n" and "n < 2 ^ 53"
  shows "fl (of_int n) = of_int n"
proof (cases "n = 0")
  case True
  then show ?thesis by (simp add: fl_def)
next
  case False
  with assms have n: "0 < n" by simp
  let ?x = "real_of_int n"
  let ?k = "ilog2 ?x"
  have x: "0 < ?x" using n by simp
  have "1 \<le> ?x" using n by simp
  then have "ilog2 1 \<le> ?k" by (intro ilog2_mono) simp_all
  moreover have "ilog2 1 = 0" by (rule ilog2_unique) simp_all
  ultimately have k0: "0 \<le> ?k" by simp
  have "?x < 2 ^ 53" using assms(2) by (metis of_int_less_iff of_int_numeral of_int_power)
  with ilog2_bounds(1) [OF x] have "(2::real) powi ?k < 2 powi 53" by simp
  then have k53: "?k < 53" by (rule powi_less_cancel)
  have e: "ulp_exponent ?x = ?k - 52" using k0 n by (simp add: ulp_exponent_def)
  have "?x / 2 powi (?k - 52) = ?x * 2 powi (52 - ?k)"
    using power_int_minus [of "2::real" "?k - 52"] by (simp add: field_simps)
  also have "\<dots> = of_int (n * 2 ^ nat (52 - ?k))"
    using k53 by (simp add: powi_nat)
  finally have s: "?x / 2 powi (?k - 52) = of_int (n * 2 ^ nat (52 - ?k))" .
  have "fl ?x = of_int (n * 2 ^ nat (52 - ?k)) * 2 powi (?k - 52)"
    using x by (simp only: fl_pos_eq e s round_half_even_of_int)
  also have "\<dots> = ?x * (2 powi (52 - ?k) * 2 powi (?k - 52))"
    using k53 by (simp add: powi_nat)
  also have "2 powi (52 - ?k) * 2 powi (?k - 52) = (1::real)"
    by (subst powi_add [symmetric]) simp
  finally show ?thesis by simp
qed

lemma double_below_one:
  assumes "fl r = r" and "0 \<le> r" and "r < 1"
  shows "r \<le> 1 - 1 / 2 ^ 53"
proof (cases "r < 1 / 2")
  case True
  have "1 / (2::real) ^ 53 \<le> 1 / 2" by simp
  with True show ?thesis by linarith
next
  case False
  then have r: "0 < r" "1 / 2 \<le> r" by simp_all
  define P where "P = (2::real) ^ 53"
  have P: "0 < P" by (simp only: P_def zero_less_power zero_less_numeral)
  have k: "ilog2 r = - 1"
    using r assms(3) by (intro ilog2_unique) simp_all
  have e: "ulp_exponent r = - 53" using r(1) by (simp add: ulp_exponent_def k)
  have p: "(2::real) powi (- 53) = 1 / P"
    by (simp only: P_def power_int_minus_divide power_int_numeral)
  let ?m = "round_half_even (r / (1 / P))"
  have "fl r = of_int ?m * (1 / P)"
    by (simp only: fl_pos_eq [OF r(1)] e p)
  with assms(1) have "r = of_int ?m * (1 / P)" by simp
  with P have m: "r * P = of_int ?m" by (simp add: field_simps)
  have "r * P < 1 * P" using assms(3) P by (simp only: mult_less_cancel_right_pos)
  with m have "real_of_int ?m < P" by simp
  moreover have "P = real_of_int (2 ^ 53)" by (simp only: P_def of_int_power of_int_numeral)
  ultimately have "real_of_int ?m < real_of_int (2 ^ 53)" by simp
  then have "?m < 2 ^ 53" by (simp only: of_int_less_iff)
  then have "?m \<le> 2 ^ 53 - 1" by simp
  then have "real_of_int ?m \<le> real_of_int (2 ^ 53 - 1)" by (simp only: of_int_le_iff)
  also have "real_of_int (2 ^ 53 - 1) = P - 1"
    by (simp only: P_def of_int_diff of_int_power of_int_numeral of_int_1)
  finally have "r * P \<le> P - 1" by (simp only: m)
  with P have "r \<le> 1 - 1 / P" by (simp add: field_simps)
  then show ?thesis by (simp only: P_def)
qed

section \<open>Average resolution time\<close>

lemma ms_per_day_eq: "ms_per_day = 86400000"
  by (simp add: ms_per_day_def fl_eval)

lemma reduce_days_returns:
  "\<forall>r \<in> set rs. resolvedAt r \<noteq> None \<Longrightarrow> \<exists>total. reduce_days acc rs = Inr total"
  by (induction rs arbitrary: acc) (auto simp: Let_def)

lemma avgResolutionTime_returns: "\<exists>avg. avgResolutionTime reports = Inr avg"
proof -
  have "\<exists>total. reduce_days 0
      (filter (\<lambda>r. status r = Resolved \<and> resolvedAt r \<noteq> None) reports) = Inr total"
    by (rule reduce_days_returns) simp
  then show ?thesis
    by (auto simp: avgResolutionTime_def Let_def)
qed

text \<open>The seed store: one resolved report, after one whole day.\<close>

lemma avgResolutionTime_seed: "avgResolutionTime mockReports = Inr 1"
  by (simp add: avgResolutionTime_def mockReports_def ms_per_day_eq math_floor_def fl_eval)

text \<open>
  Two valid dates further apart than \<open>2 ^ 53\<close> milliseconds: the difference is rounded
  to the even neighbour, and the code counts 200000000 days where the exact quotient has
  199999999 whole days.
\<close>

lemma reduce_days_rounds:
  "reduce_days 0 [(mockReports ! 2)\<lparr>reportedAt := - 8639999999999999,
      resolvedAt := Some 8640000000000000\<rparr>] = Inr 200000000 \<and>
   (8640000000000000 - (- 8639999999999999)) div (1000 * 60 * 60 * 24) = (199999999 :: int)"
  by (simp add: mockReports_def ms_per_day_eq math_floor_def fl_eval)

text \<open>
  Claim C5 fails on a resolved report without resolution timestamp: the sum skips it, the
  divisor counts it. With the seed's report resolved after one whole day and a second
  resolved report without timestamp the code shows half a day, where the mean over the
  resolution times there are is one day.
\<close>

theorem avgResolutionTime_divides_by_all_resolved:
  "avgResolutionTime
     [mockReports ! 2, (mockReports ! 2)\<lparr>id_r := ''4'', resolvedAt := None\<rparr>] = Inr (1 / 2) \<and>
   mean_resolution_days
     [mockReports ! 2, (mockReports ! 2)\<lparr>id_r := ''4'', resolvedAt := None\<rparr>] = 1"
  by (simp add: avgResolutionTime_def mean_resolution_days_def resolution_days_def
      mockReports_def ms_per_day_eq math_floor_def fl_eval)

section \<open>The mock analysis\<close>

lemma fl_consts:
  "fl (75 / 100) = 75 / 100" "80 / 100 \<le> fl (8 / 10)"
  "fl 0 = 0" "fl 1 = 1" "fl 3 = 3" "fl 18 = 18" "fl 20 = 20" "fl 25 = 25" "fl 70 = 70"
  "fl 85 = 85"
  by (simp_all add: fl_eval)

lemma fl_top_sample:
  "fl ((1 - 1 / 2 ^ 53) * 50) \<le> 50" "fl ((1 - 1 / 2 ^ 53) * 60) \<le> 60"
  "fl ((1 - 1 / 2 ^ 53) * 15) \<le> 15"
  "fl (fl (75 / 100) + fl ((1 - 1 / 2 ^ 53) * fl (2 / 10))) \<le> 95 / 100"
  "fl (fl (8 / 10) + fl ((1 - 1 / 2 ^ 53) * fl (15 / 100))) \<le> 95 / 100"
  "fl (1 + fl ((1 - 1 / 2 ^ 53) * 10)) < 11"
  "fl ((1 - 1 / 2 ^ 53) * 4) < 4"
  "0 \<le> fl (2 / 10)" "0 \<le> fl (15 / 100)"
  by (simp_all add: fl_eval)

text \<open>A product of a sample with a constant, between the products at 0 and at the top sample.\<close>

lemma sample_product:
  assumes "unit_sample x" and "0 \<le> c"
  shows "0 \<le> fl (x * c)" and "fl (x * c) \<le> fl ((1 - 1 / 2 ^ 53) * c)"
proof -
  from assms(1) have x: "0 \<le> x" "x \<le> 1 - 1 / 2 ^ 53"
    using double_below_one [of x] by (simp_all add: unit_sample_def)
  from x(1) assms(2) have p: "0 \<le> x * c" by simp
  then show "0 \<le> fl (x * c)" by (rule fl_nonneg)
  from x(2) assms(2) have "x * c \<le> (1 - 1 / 2 ^ 53) * c" by (rule mult_right_mono)
  with p show "fl (x * c) \<le> fl ((1 - 1 / 2 ^ 53) * c)" by (rule fl_mono)
qed

text \<open>A sum of a constant and such a product.\<close>

lemma sample_sum:
  assumes "unit_sample x" and "0 \<le> c" and "0 \<le> a"
  shows "fl a \<le> fl (a + fl (x * c))"
    and "fl (a + fl (x * c)) \<le> fl (a + fl ((1 - 1 / 2 ^ 53) * c))"
proof -
  note p = sample_product [OF assms(1,2)]
  from p(1) have "a \<le> a + fl (x * c)" by simp
  with assms(3) show "fl a \<le> fl (a + fl (x * c))" by (rule fl_mono)
  from p(1) assms(3) have "0 \<le> a + fl (x * c)" by simp
  moreover from p(2) have "a + fl (x * c) \<le> a + fl ((1 - 1 / 2 ^ 53) * c)" by simp
  ultimately show "fl (a + fl (x * c)) \<le> fl (a + fl ((1 - 1 / 2 ^ 53) * c))"
    by (rule fl_mono)
qed

lemma math_round_bounds:
  assumes "unit_sample x"
  shows "20 \<le> math_round (fl (20 + fl (x * 50)))" "math_round (fl (20 + fl (x * 50))) \<le> 70"
    "25 \<le> math_round (fl (25 + fl (x * 60)))" "math_round (fl (25 + fl (x * 60))) \<le> 85"
    "3 \<le> math_round (fl (3 + fl (x * 15)))" "math_round (fl (3 + fl (x * 15))) \<le> 18"
proof -
  have w: "20 \<le> fl (20 + fl (x * 50))" "fl (20 + fl (x * 50)) \<le> 70"
  proof -
    from sample_sum(1) [OF assms, of 50 20] show "20 \<le> fl (20 + fl (x * 50))"
      by (simp add: fl_consts)
    have "20 + fl ((1 - 1 / 2 ^ 53) * 50) \<le> 70" using fl_top_sample(1) by simp
    then have "fl (20 + fl ((1 - 1 / 2 ^ 53) * 50)) \<le> fl 70"
      by (intro fl_mono) (simp_all add: fl_nonneg)
    with sample_sum(2) [OF assms, of 50 20] show "fl (20 + fl (x * 50)) \<le> 70"
      by (simp add: fl_consts)
  qed
  have l: "25 \<le> fl (25 + fl (x * 60))" "fl (25 + fl (x * 60)) \<le> 85"
  proof -
    from sample_sum(1) [OF assms, of 60 25] show "25 \<le> fl (25 + fl (x * 60))"
      by (simp add: fl_consts)
    have "25 + fl ((1 - 1 / 2 ^ 53) * 60) \<le> 85" using fl_top_sample(2) by simp
    then have "fl (25 + fl ((1 - 1 / 2 ^ 53) * 60)) \<le> fl 85"
      by (intro fl_mono) (simp_all add: fl_nonneg)
    with sample_sum(2) [OF assms, of 60 25] show "fl (25 + fl (x * 60)) \<le> 85"
      by (simp add: fl_consts)
  qed
  have d: "3 \<le> fl (3 + fl (x * 15))" "fl (3 + fl (x * 15)) \<le> 18"
  proof -
    from sample_sum(1) [OF assms, of 15 3] show "3 \<le> fl (3 + fl (x * 15))"
      by (simp add: fl_consts)
    have "3 + fl ((1 - 1 / 2 ^ 53) * 15) \<le> 18" using fl_top_sample(3) by simp
    then have "fl (3 + fl ((1 - 1 / 2 ^ 53) * 15)) \<le> fl 18"
      by (intro fl_mono) (simp_all add: fl_nonneg)
    with sample_sum(2) [OF assms, of 15 3] show "fl (3 + fl (x * 15)) \<le> 18"
      by (simp add: fl_consts)
  qed
  show "20 \<le> math_round (fl (20 + fl (x * 50)))" "math_round (fl (20 + fl (x * 50))) \<le> 70"
    "25 \<le> math_round (fl (25 + fl (x * 60)))" "math_round (fl (25 + fl (x * 60))) \<le> 85"
    "3 \<le> math_round (fl (3 + fl (x * 15)))" "math_round (fl (3 + fl (x * 15))) \<le> 18"
    using w l d unfolding math_round_def by (simp_all add: le_floor_iff floor_le_iff)
qed

lemma math_floor_priority:
  assumes "unit_sample x"
  shows "1 \<le> math_floor (fl (1 + fl (x * 10)))" "math_floor (fl (1 + fl (x * 10))) \<le> 10"
proof -
  from sample_sum(1) [OF assms, of 10 1] have lo: "1 \<le> fl (1 + fl (x * 10))"
    by (simp add: fl_consts)
  from sample_sum(2) [OF assms, of 10 1] fl_top_sample(6) have hi: "fl (1 + fl (x * 10)) < 11"
    by simp
  show "1 \<le> math_floor (fl (1 + fl (x * 10)))" "math_floor (fl (1 + fl (x * 10))) \<le> 10"
    using lo hi unfolding math_floor_def by (simp_all add: le_floor_iff floor_le_iff)
qed

lemma mock_index:
  assumes "unit_sample x"
  shows "nat (math_floor (fl (x * real (length severities)))) < length severities"
    "nat (math_floor (fl (x * real (length riskLevels)))) < length riskLevels"
proof -
  from sample_product(2) [OF assms, of 4] fl_top_sample(7) have "fl (x * 4) < 4" by simp
  then have "\<lfloor>fl (x * 4)\<rfloor> < 4" by (simp add: floor_less_iff)
  then have i: "nat \<lfloor>fl (x * 4)\<rfloor> < 4" by linarith
  have n: "length severities = 4" "length riskLevels = 4"
    by (simp_all add: severities_def riskLevels_def)
  from i show "nat (math_floor (fl (x * real (length severities)))) < length severities"
    "nat (math_floor (fl (x * real (length riskLevels)))) < length riskLevels"
    by (simp_all only: n math_floor_def of_nat_numeral)
qed

lemma confidence_bounds:
  assumes "unit_sample x"
  shows "75 / 100 \<le> fl (fl (75 / 100) + fl (x * fl (2 / 10)))"
    "fl (fl (75 / 100) + fl (x * fl (2 / 10))) \<le> 95 / 100"
    "80 / 100 \<le> fl (fl (8 / 10) + fl (x * fl (15 / 100)))"
    "fl (fl (8 / 10) + fl (x * fl (15 / 100))) \<le> 95 / 100"
proof -
  have a: "0 \<le> fl (75 / 100)" "0 \<le> fl (8 / 10)" by (simp_all add: fl_nonneg)
  have i: "fl (fl (75 / 100)) = 75 / 100" by (simp add: fl_eval)
  have "fl (8 / 10) \<le> fl (8 / 10) + 0" by simp
  have j: "80 / 100 \<le> fl (fl (8 / 10))" by (simp add: fl_eval)
  from sample_sum(1) [OF assms fl_top_sample(8) a(1)] i
  show "75 / 100 \<le> fl (fl (75 / 100) + fl (x * fl (2 / 10)))" by simp
  from sample_sum(2) [OF assms fl_top_sample(8) a(1)] fl_top_sample(4)
  show "fl (fl (75 / 100) + fl (x * fl (2 / 10))) \<le> 95 / 100" by simp
  from sample_sum(1) [OF assms fl_top_sample(9) a(2)] j
  show "80 / 100 \<le> fl (fl (8 / 10) + fl (x * fl (15 / 100)))" by simp
  from sample_sum(2) [OF assms fl_top_sample(9) a(2)] fl_top_sample(5)
  show "fl (fl (8 / 10) + fl (x * fl (15 / 100))) \<le> 95 / 100" by simp
qed

text \<open>
  Claim C7. For samples that are double precision numbers in \<open>[0, 1)\<close>, and with every
  operation rounded as the code rounds it, the mock analysis has its confidence in
  \<open>[0.75, 0.95]\<close>, its severity confidence in \<open>[0.80, 0.95]\<close>, a whole width in
  \<open>[20, 70]\<close>, a whole length in \<open>[25, 85]\<close>, a whole depth in \<open>[3, 18]\<close>, a risk score in
  \<open>[0, 1]\<close>, a whole priority in \<open>[1, 10]\<close>, the area width times length and the volume
  width times length times depth, both positive.
\<close>

theorem getMockAnalysis_ranges:
  assumes "unit_samples rnd" and "m = getMockAnalysis rnd"
  shows "75 / 100 \<le> confidence m \<and> confidence m \<le> 95 / 100 \<and>
     80 / 100 \<le> severity_confidence m \<and> severity_confidence m \<le> 95 / 100 \<and>
     width (a_dimensions m) \<in> \<int> \<and> 20 \<le> width (a_dimensions m) \<and> width (a_dimensions m) \<le> 70 \<and>
     length_d (a_dimensions m) \<in> \<int> \<and> 25 \<le> length_d (a_dimensions m) \<and>
       length_d (a_dimensions m) \<le> 85 \<and>
     depth (a_dimensions m) \<in> \<int> \<and> 3 \<le> depth (a_dimensions m) \<and> depth (a_dimensions m) \<le> 18 \<and>
     0 \<le> risk_score m \<and> risk_score m \<le> 1 \<and>
     a_priority m \<in> \<int> \<and> 1 \<le> a_priority m \<and> a_priority m \<le> 10 \<and>
     area m = width (a_dimensions m) * length_d (a_dimensions m) \<and>
     volume m = width (a_dimensions m) * length_d (a_dimensions m) * depth (a_dimensions m) \<and>
     0 < area m \<and> 0 < volume m"
proof -
  from assms(1) have s: "unit_sample (s_width rnd)" "unit_sample (s_length rnd)"
    "unit_sample (s_depth rnd)" "unit_sample (s_confidence rnd)"
    "unit_sample (s_severity_confidence rnd)" "unit_sample (s_risk_score rnd)"
    "unit_sample (s_priority rnd)"
    by (simp_all add: unit_samples_def)
  define w where "w = math_round (fl (20 + fl (s_width rnd * 50)))"
  define l where "l = math_round (fl (25 + fl (s_length rnd * 60)))"
  define d where "d = math_round (fl (3 + fl (s_depth rnd * 15)))"
  define p where "p = math_floor (fl (1 + fl (s_priority rnd * 10)))"
  have w: "20 \<le> w" "w \<le> 70" and l: "25 \<le> l" "l \<le> 85" and d: "3 \<le> d" "d \<le> 18"
    and p: "1 \<le> p" "p \<le> 10"
    using math_round_bounds [OF s(1)] math_round_bounds [OF s(2)] math_round_bounds [OF s(3)]
      math_floor_priority [OF s(7)]
    by (simp_all add: w_def l_def d_def p_def)
  have wl: "0 \<le> w * l" "w * l < 2 ^ 53"
  proof -
    from w l show "0 \<le> w * l" by simp
    from w l have "w * l \<le> 70 * 85" by (intro mult_mono) simp_all
    then show "w * l < 2 ^ 53" by simp
  qed
  have wld: "0 \<le> w * l * d" "w * l * d < 2 ^ 53"
  proof -
    from w l d show "0 \<le> w * l * d" by simp
    from w l have "w * l \<le> 70 * 85" by (intro mult_mono) simp_all
    with w l d have "w * l * d \<le> 70 * 85 * 18" by (intro mult_mono) simp_all
    then show "w * l * d < 2 ^ 53" by simp
  qed
  have a: "fl (real_of_int w * real_of_int l) = real_of_int w * real_of_int l"
    using fl_of_int [OF wl] by simp
  have v: "fl (real_of_int w * real_of_int l * real_of_int d) =
      real_of_int w * real_of_int l * real_of_int d"
    using fl_of_int [OF wld] by simp
  have fields: "width (a_dimensions m) = real_of_int w" "length_d (a_dimensions m) = real_of_int l"
    "depth (a_dimensions m) = real_of_int d" "a_priority m = real_of_int p"
    "area m = real_of_int w * real_of_int l"
    "volume m = real_of_int w * real_of_int l * real_of_int d"
    "confidence m = fl (fl (75 / 100) + fl (s_confidence rnd * fl (2 / 10)))"
    "severity_confidence m = fl (fl (8 / 10) + fl (s_severity_confidence rnd * fl (15 / 100)))"
    "risk_score m = s_risk_score rnd"
    by (simp_all add: assms(2) getMockAnalysis_def Let_def w_def [symmetric] l_def [symmetric]
        d_def [symmetric] p_def [symmetric] a v)
  have pos: "0 < real_of_int w * real_of_int l" "0 < real_of_int w * real_of_int l * real_of_int d"
    using w l d by simp_all
  have conf: "75 / 100 \<le> confidence m" "confidence m \<le> 95 / 100"
    "80 / 100 \<le> severity_confidence m" "severity_confidence m \<le> 95 / 100"
    using confidence_bounds [OF s(4)] confidence_bounds [OF s(5)]
    by (simp_all only: fields)
  have risk: "0 \<le> risk_score m" "risk_score m \<le> 1"
    using s(6) by (simp_all add: fields unit_sample_def)
  have ints: "real_of_int 20 \<le> real_of_int w" "real_of_int w \<le> real_of_int 70"
    "real_of_int 25 \<le> real_of_int l" "real_of_int l \<le> real_of_int 85"
    "real_of_int 3 \<le> real_of_int d" "real_of_int d \<le> real_of_int 18"
    "real_of_int 1 \<le> real_of_int p" "real_of_int p \<le> real_of_int 10"
    using w l d p by (simp_all only: of_int_le_iff)
  show ?thesis
    using conf risk pos ints by (simp add: fields)
qed

text \<open>The sample 0.7, the double nearest to it.\<close>

lemma fl_seven_tenths:
  "fl (fl (7 / 10)) = fl (7 / 10)" "0 \<le> fl (7 / 10)" "fl (7 / 10) < 1"
  "fl (fl (7 / 10) * 50) = 35" "fl (fl (7 / 10) * 60) = 42"
  "fl (fl (7 / 10) * 15) = 21 / 2" "fl (fl (7 / 10) * 10) = 7"
  by (simp_all add: fl_eval)

lemma fl_small_ints:
  "fl 55 = 55" "fl 67 = 67" "fl (27 / 2) = 27 / 2" "fl 8 = 8" "fl 3685 = 3685"
  "fl 51590 = 51590"
  by (simp_all add: fl_eval)

theorem getMockAnalysis_ranges_witness:
  "unit_samples \<lparr>s_severity = fl (7 / 10), s_riskLevel = 0, s_width = fl (7 / 10),
       s_length = fl (7 / 10), s_depth = fl (7 / 10), s_confidence = fl (7 / 10),
       s_severity_confidence = fl (7 / 10), s_risk_score = fl (7 / 10),
       s_priority = fl (7 / 10)\<rparr> \<and>
   a_dimensions (getMockAnalysis \<lparr>s_severity = fl (7 / 10), s_riskLevel = 0, s_width = fl (7 / 10),
       s_length = fl (7 / 10), s_depth = fl (7 / 10), s_confidence = fl (7 / 10),
       s_severity_confidence = fl (7 / 10), s_risk_score = fl (7 / 10),
       s_priority = fl (7 / 10)\<rparr>) = \<lparr>width = 55, depth = 14, length_d = 67\<rparr> \<and>
   a_priority (getMockAnalysis \<lparr>s_severity = fl (7 / 10), s_riskLevel = 0, s_width = fl (7 / 10),
       s_length = fl (7 / 10), s_depth = fl (7 / 10), s_confidence = fl (7 / 10),
       s_severity_confidence = fl (7 / 10), s_risk_score = fl (7 / 10),
       s_priority = fl (7 / 10)\<rparr>) = 8 \<and>
   area (getMockAnalysis \<lparr>s_severity = fl (7 / 10), s_riskLevel = 0, s_width = fl (7 / 10),
       s_length = fl (7 / 10), s_depth = fl (7 / 10), s_confidence = fl (7 / 10),
       s_severity_confidence = fl (7 / 10), s_risk_score = fl (7 / 10),
       s_priority = fl (7 / 10)\<rparr>) = 3685 \<and>
   volume (getMockAnalysis \<lparr>s_severity = fl (7 / 10), s_riskLevel = 0, s_width = fl (7 / 10),
       s_length = fl (7 / 10), s_depth = fl (7 / 10), s_confidence = fl (7 / 10),
       s_severity_confidence = fl (7 / 10), s_risk_score = fl (7 / 10),
       s_priority = fl (7 / 10)\<rparr>) = 51590 \<and>
   confidence (getMockAnalysis \<lparr>s_severity = fl (7 / 10), s_riskLevel = 0, s_width = fl (7 / 10),
       s_length = fl (7 / 10), s_depth = fl (7 / 10), s_confidence = fl (7 / 10),
       s_severity_confidence = fl (7 / 10), s_risk_score = fl (7 / 10),
       s_priority = fl (7 / 10)\<rparr>) \<le> 95 / 100"
proof -
  let ?rnd = "\<lparr>s_severity = fl (7 / 10), s_riskLevel = 0, s_width = fl (7 / 10),
       s_length = fl (7 / 10), s_depth = fl (7 / 10), s_confidence = fl (7 / 10),
       s_severity_confidence = fl (7 / 10), s_risk_score = fl (7 / 10),
       s_priority = fl (7 / 10)\<rparr>"
  have z: "unit_sample 0" by (simp add: unit_sample_def fl_def)
  have s: "unit_sample (fl (7 / 10))"
    unfolding unit_sample_def using fl_seven_tenths(1,2,3) by blast
  have u: "unit_samples ?rnd"
    using z s by (simp add: unit_samples_def)
  from getMockAnalysis_ranges [OF u refl]
  have c: "confidence (getMockAnalysis ?rnd) \<le> 95 / 100"
    by blast
  have d: "a_dimensions (getMockAnalysis ?rnd) = \<lparr>width = 55, depth = 14, length_d = 67\<rparr>"
    by (simp add: getMockAnalysis_def math_round_def Let_def fl_seven_tenths fl_small_ints)
  have p: "a_priority (getMockAnalysis ?rnd) = 8"
    by (simp add: getMockAnalysis_def math_floor_def Let_def fl_seven_tenths fl_small_ints)
  have a: "area (getMockAnalysis ?rnd) = 3685" "volume (getMockAnalysis ?rnd) = 51590"
    by (simp_all add: getMockAnalysis_def math_round_def Let_def fl_seven_tenths fl_small_ints)
  from u c d p a show ?thesis by blast
qed

section \<open>Analysing an image\<close>

lemma analyzePothole_rejects:
  "analyzePothole rnd (Rejects e) =
     (case e of
        AxiosError code st \<Rightarrow>
          if code = Some ''ECONNREFUSED'' then Inr (Some (getMockAnalysis rnd))
          else Inl (Error ''Failed to analyze pothole image'')
      | _ \<Rightarrow> Inl (Error ''Failed to analyze pothole image''))"
  by (cases e) (simp_all add: analyzePothole_def)

text \<open>
  Claim C2, as the code has it. \<^verbatim>\<open>analyzePothole\<close> returns the mock analysis when axios
  rejects the request with the code \<^verbatim>\<open>ECONNREFUSED\<close>. A response with a truthy
  \<^verbatim>\<open>success\<close> gives whatever its \<^verbatim>\<open>analysis\<close> property holds, \<^verbatim>\<open>undefined\<close> when it is
  missing. A response without body, a response whose \<^verbatim>\<open>success\<close> is false or missing, and
  every rejection that is not a connection failure (an HTTP error status among them)
  throw the error "Failed to analyze pothole image".
\<close>

theorem analyzePothole_outcomes:
  "analyzePothole rnd (Rejects (AxiosError (Some ''ECONNREFUSED'') st)) =
     Inr (Some (getMockAnalysis rnd)) \<and>
   analyzePothole rnd (Resolves (Body True analysis message)) = Inr analysis \<and>
   analyzePothole rnd (Resolves (Body False analysis message)) =
     Inl (Error ''Failed to analyze pothole image'') \<and>
   analyzePothole rnd (Resolves NoBody) = Inl (Error ''Failed to analyze pothole image'') \<and>
   (\<not> connection_failure e \<longrightarrow>
      analyzePothole rnd (Rejects e) = Inl (Error ''Failed to analyze pothole image''))"
proof (intro conjI impI)
  assume n: "\<not> connection_failure e"
  show "analyzePothole rnd (Rejects e) = Inl (Error ''Failed to analyze pothole image'')"
  proof (cases e)
    case (AxiosError code st)
    with n have "code \<noteq> Some ''ECONNREFUSED''"
      by (cases code) (auto simp: unreachable_codes_def)
    with AxiosError show ?thesis by (simp add: analyzePothole_def)
  qed (simp_all add: analyzePothole_def)
qed (simp_all add: analyzePothole_def)

theorem analyzePothole_outcomes_witness:
  "\<not> connection_failure (AxiosError (Some ''ERR_BAD_RESPONSE'') (Some 500)) \<and>
   analyzePothole
     \<lparr>s_severity = 0, s_riskLevel = 0, s_width = 0, s_length = 0, s_depth = 0,
      s_confidence = 0, s_severity_confidence = 0, s_risk_score = 0, s_priority = 0\<rparr>
     (Rejects (AxiosError (Some ''ERR_BAD_RESPONSE'') (Some 500))) =
     Inl (Error ''Failed to analyze pothole image'')"
  using analyzePothole_outcomes
    [of "\<lparr>s_severity = 0, s_riskLevel = 0, s_width = 0, s_length = 0, s_depth = 0,
      s_confidence = 0, s_severity_confidence = 0, s_risk_score = 0, s_priority = 0\<rparr>"
      None None "''''" "AxiosError (Some ''ERR_BAD_RESPONSE'') (Some 500)"]
  by (simp add: unreachable_codes_def)

text \<open>
  Claim C2 as it is written fails twice. A connection failure that axios reports with
  another code, as a browser does with \<^verbatim>\<open>ERR_NETWORK\<close>, throws the error instead of
  giving the mock analysis. A malformed response with a truthy \<^verbatim>\<open>success\<close> and no
  \<^verbatim>\<open>analysis\<close> throws nothing: the function returns \<^verbatim>\<open>undefined\<close>.
\<close>

theorem analyzePothole_unreachable_throws:
  "connection_failure (AxiosError (Some ''ERR_NETWORK'') None) \<and>
   analyzePothole
     \<lparr>s_severity = 0, s_riskLevel = 0, s_width = 0, s_length = 0, s_depth = 0,
      s_confidence = 0, s_severity_confidence = 0, s_risk_score = 0, s_priority = 0\<rparr>
     (Rejects (AxiosError (Some ''ERR_NETWORK'') None)) =
     Inl (Error ''Failed to analyze pothole image'') \<and>
   analyzePothole
     \<lparr>s_severity = 0, s_riskLevel = 0, s_width = 0, s_length = 0, s_depth = 0,
      s_confidence = 0, s_severity_confidence = 0, s_risk_score = 0, s_priority = 0\<rparr>
     (Resolves (Body True None ''ok'')) = Inr None"
  by (simp add: analyzePothole_def unreachable_codes_def)

lemma analyzePothole_examples:
  "analyzePothole rnd (Rejects (AxiosError (Some ''ETIMEDOUT'') None)) =
     Inl (Error ''Failed to analyze pothole image'')"
  "analyzePothole rnd (Rejects (AxiosError (Some ''ENOTFOUND'') None)) =
     Inl (Error ''Failed to analyze pothole image'')"
  "analyzePothole rnd (Rejects (AxiosError (Some ''ERR_BAD_RESPONSE'') (Some 500))) =
     Inl (Error ''Failed to analyze pothole image'')"
  "analyzePothole rnd (Rejects (Other (Some ''ECONNREFUSED''))) =
     Inl (Error ''Failed to analyze pothole image'')"
  "analyzePothole rnd (Resolves (Body False b ''model not loaded'')) =
     Inl (Error ''Failed to analyze pothole image'')"
  "analyzePothole rnd (Resolves (Body True (Some a) ''ok'')) = Inr (Some a)"
  by (simp_all add: analyzePothole_def)

end
